theory Spec2Isabelle
  imports Main
begin

section \<open>SQL values\<close>

text \<open>
  A cell of an SQLite table holds NULL, a 64-bit integer or a text. The script reads its
  tables from CSV files through pandas, which stores whole numbers as INTEGER and strings
  as TEXT and turns a missing cell into NULL. REAL (floating-point) cells are not part of
  this model.
\<close>

datatype val = Null | IntV int | TextV string

datatype hv = H | V

datatype sql_error =
    NoSuchTable string
  | NoSuchColumn string
  | TableExists string
  | DuplicateColumn string
  | UniqueFailed
  | ForeignKeyFailed

subsection \<open>Text of an integer\<close>

definition digit_char :: "nat \<Rightarrow> char" where
  "digit_char n = ''0123456789'' ! (n mod 10)"

fun nat_text :: "nat \<Rightarrow> string" where
  "nat_text n = (if n < 10 then [digit_char n] else nat_text (n div 10) @ [digit_char n])"

declare nat_text.simps [simp del]

definition int_text :: "int \<Rightarrow> string" where
  "int_text i = (if i < 0 then CHR ''-'' # nat_text (nat (- i)) else nat_text (nat i))"

subsection \<open>Operators\<close>

text \<open>
  \<open>a || b\<close>: NULL when either operand is NULL, otherwise the texts of the operands joined;
  an integer operand is rendered in decimal.
\<close>

fun val_text :: "val \<Rightarrow> string" where
  "val_text (TextV s) = s"
| "val_text (IntV i) = int_text i"
| "val_text Null = []"

fun sql_concat :: "val \<Rightarrow> val \<Rightarrow> val" where
  "sql_concat Null b = Null"
| "sql_concat a Null = Null"
| "sql_concat a b = TextV (val_text a @ val_text b)"

text \<open>
  \<open>CAST(x AS INT)\<close>: NULL stays NULL, an integer stays itself, and of a text the longest
  prefix that reads as an integer is taken (after leading spaces; 0 when there is none),
  clamped to the 64-bit range.
\<close>

definition is_digit :: "char \<Rightarrow> bool" where
  "is_digit c = (c \<in> set ''0123456789'')"

definition digit_val :: "char \<Rightarrow> int" where
  "digit_val c = int (of_char c) - 48"

definition digits_val :: "string \<Rightarrow> int" where
  "digits_val s = foldl (\<lambda>acc c. 10 * acc + digit_val c) 0 s"

definition clamp64 :: "int \<Rightarrow> int" where
  "clamp64 i = max (- (2 ^ 63)) (min i (2 ^ 63 - 1))"

definition text_to_int :: "string \<Rightarrow> int" where
  "text_to_int s =
     (let t = dropWhile (\<lambda>c. c = CHR '' '') s in
      case t of
        [] \<Rightarrow> 0
      | c # cs \<Rightarrow>
          if c = CHR ''-'' then clamp64 (- digits_val (takeWhile is_digit cs))
          else if c = CHR ''+'' then clamp64 (digits_val (takeWhile is_digit cs))
          else clamp64 (digits_val (takeWhile is_digit t)))"

fun cast_int :: "val \<Rightarrow> val" where
  "cast_int Null = Null"
| "cast_int (IntV i) = IntV i"
| "cast_int (TextV s) = IntV (text_to_int s)"

text \<open>
  Storing into a column declared TEXT renders an integer as text (column affinity).
\<close>

fun text_affinity :: "val \<Rightarrow> val" where
  "text_affinity (IntV i) = TextV (int_text i)"
| "text_affinity v = v"

text \<open>
  Ordering of values as SQLite sorts and compares them: NULL first, then integers by
  value, then texts byte by byte.
\<close>

fun bytes_less :: "string \<Rightarrow> string \<Rightarrow> bool" where
  "bytes_less [] [] = False"
| "bytes_less [] (y # ys) = True"
| "bytes_less (x # xs) [] = False"
| "bytes_less (x # xs) (y # ys) =
     (if x = y then bytes_less xs ys else (of_char x :: nat) < of_char y)"

fun val_less :: "val \<Rightarrow> val \<Rightarrow> bool" where
  "val_less Null Null = False"
| "val_less Null b = True"
| "val_less (IntV a) (IntV b) = (a < b)"
| "val_less (IntV a) (TextV b) = True"
| "val_less (TextV a) (TextV b) = bytes_less a b"
| "val_less a b = False"

text \<open>
  A comparison \<open>a > b\<close> or \<open>a = b\<close> in a \<open>CASE WHEN\<close> selects its branch only when it is
  true; with a NULL operand it is unknown, which is not true. The values are compared as
  they are stored: the two score columns that the script compares have the same declared
  type, so no conversion comes before the comparison.
\<close>

definition sql_gt :: "val \<Rightarrow> val \<Rightarrow> bool" where
  "sql_gt a b = (a \<noteq> Null \<and> b \<noteq> Null \<and> val_less b a)"

definition sql_lt :: "val \<Rightarrow> val \<Rightarrow> bool" where
  "sql_lt a b = (a \<noteq> Null \<and> b \<noteq> Null \<and> val_less a b)"

definition sql_eq :: "val \<Rightarrow> val \<Rightarrow> bool" where
  "sql_eq a b = (a \<noteq> Null \<and> b \<noteq> Null \<and> a = b)"

section \<open>The raw tables\<close>

text \<open>
  One row of \<open>game_log\<close>, with the columns the statements of the script read. The
  eight game columns that are copied unchanged (\<open>length_outs\<close>, \<open>completion\<close>, \<open>forefeit\<close>,
  \<open>protest\<close>, \<open>attendance\<close>, \<open>length_minutes\<close>, \<open>additional_info\<close>, \<open>acquisition_info\<close>) are
  \<open>game_info\<close>, and the twenty-nine statistics columns of a side (\<open>line_score\<close> to
  \<open>triple_plays\<close>) are \<open>h_stats\<close> and \<open>v_stats\<close>, in the order of the statement.
  \<open>player_id r hv num\<close> is the column \<open>{hv}_player_{num}_id\<close> and \<open>player_def_pos r hv num\<close>
  the column \<open>{hv}_player_{num}_def_pos\<close>. The column \<open>game_id\<close> is the one that
  \<open>ALTER TABLE\<close> adds.
\<close>

record log_row =
  date :: val
  number_of_game :: val
  day_night :: val
  park_id :: val
  game_info :: "val list"
  h_name :: val
  v_name :: val
  h_league :: val
  v_league :: val
  h_score :: val
  v_score :: val
  h_stats :: "val list"
  v_stats :: "val list"
  hp_umpire_id :: val
  umpire_1b_id :: val
  umpire_2b_id :: val
  umpire_3b_id :: val
  lf_umpire_id :: val
  rf_umpire_id :: val
  h_manager_id :: val
  v_manager_id :: val
  winning_pitcher_id :: val
  losing_pitcher_id :: val
  saving_pitcher_id :: val
  winning_rbi_batter_id :: val
  h_starting_pitcher_id :: val
  v_starting_pitcher_id :: val
  player_id :: "hv \<Rightarrow> nat \<Rightarrow> val"
  player_def_pos :: "hv \<Rightarrow> nat \<Rightarrow> val"
  game_id :: val

text \<open>The table \<open>game_log\<close>: its rows, and whether the column \<open>game_id\<close> has been added.\<close>

record log_table =
  has_game_id :: bool
  log_rows :: "log_row list"

record person_code =
  pc_id :: val
  pc_first :: val
  pc_last :: val

record park_code =
  kc_park_id :: val
  kc_name :: val
  kc_aka :: val
  kc_city :: val
  kc_state :: val
  kc_notes :: val

record team_code =
  tc_team_id :: val
  tc_league :: val
  tc_city :: val
  tc_nickname :: val
  tc_franch_id :: val

section \<open>The normalized tables\<close>

record person_row =
  p_person_id :: val
  p_first_name :: val
  p_last_name :: val

record park_row =
  k_park_id :: val
  k_name :: val
  k_nickname :: val
  k_city :: val
  k_state :: val
  k_notes :: val

record league_row =
  l_league_id :: val
  l_name :: val

record appearance_type_row =
  at_appearance_type_id :: val
  at_name :: val
  at_category :: val

record team_row =
  t_team_id :: val
  t_league_id :: val
  t_city :: val
  t_nickname :: val
  t_franch_id :: val

record game_row =
  g_game_id :: val
  g_date :: val
  g_number_of_game :: val
  g_park_id :: val
  g_day :: val
  g_info :: "val list"

record team_appearance_row =
  ta_team_id :: val
  ta_game_id :: val
  ta_home :: val
  ta_league_id :: val
  ta_score :: val
  ta_stats :: "val list"

text \<open>
  What one \<open>SELECT\<close> of the person-appearance statements yields, in the column order of
  the \<open>INSERT\<close>: \<open>game_id\<close>, \<open>team_id\<close>, \<open>person_id\<close>, \<open>appearance_type_id\<close>.
\<close>

record appearance =
  a_game_id :: val
  a_team_id :: val
  a_person_id :: val
  a_appearance_type_id :: val

record person_appearance_row =
  pa_appearance_id :: int
  pa_person_id :: val
  pa_team_id :: val
  pa_game_id :: val
  pa_appearance_type_id :: val

text \<open>The store \<open>mlb.db\<close>: every table is absent (\<open>None\<close>) or present with its rows.\<close>

record db =
  game_log :: "log_table option"
  person_codes :: "person_code list option"
  team_codes :: "team_code list option"
  park_codes :: "park_code list option"
  person :: "person_row list option"
  park :: "park_row list option"
  league :: "league_row list option"
  appearance_type :: "appearance_type_row list option"
  team :: "team_row list option"
  game :: "game_row list option"
  team_appearance :: "team_appearance_row list option"
  person_appearance :: "person_appearance_row list option"

definition empty_db :: db where
  "empty_db = \<lparr>game_log = None, person_codes = None, team_codes = None, park_codes = None,
     person = None, park = None, league = None, appearance_type = None, team = None,
     game = None, team_appearance = None, person_appearance = None\<rparr>"

text \<open>The four CSV files and the catalog file \<open>appearance_type.csv\<close>, as read by pandas.\<close>

record raw_inputs =
  in_game_log :: "log_row list"
  in_person_codes :: "person_code list"
  in_team_codes :: "team_code list"
  in_park_codes :: "park_code list"
  in_appearance_type :: "appearance_type_row list"

section \<open>Importing the data and deriving \<open>game_id\<close>\<close>

text \<open>
  Cell 13: each raw table is dropped if it exists and written again from its data frame.
  The connection of this cell does not switch foreign keys on.
\<close>

definition load_tables :: "raw_inputs \<Rightarrow> db \<Rightarrow> sql_error + db" where
  "load_tables inp d =
     Inr (d\<lparr>game_log := Some \<lparr>has_game_id = False, log_rows = in_game_log inp\<rparr>,
            person_codes := Some (in_person_codes inp),
            team_codes := Some (in_team_codes inp),
            park_codes := Some (in_park_codes inp)\<rparr>)"

text \<open>\<open>ALTER TABLE game_log ADD COLUMN game_id TEXT\<close>: the new column is NULL in every row.\<close>

definition alter_game_log :: "db \<Rightarrow> sql_error + db" where
  "alter_game_log d =
     (case game_log d of
        None \<Rightarrow> Inl (NoSuchTable ''game_log'')
      | Some t \<Rightarrow>
          if has_game_id t then Inl (DuplicateColumn ''game_id'')
          else Inr (d\<lparr>game_log := Some \<lparr>has_game_id = True,
                 log_rows = map (\<lambda>r. r\<lparr>game_id := Null\<rparr>) (log_rows t)\<rparr>\<rparr>))"

text \<open>
  \<open>try: run_command(c1)  except: pass\<close>: whatever the statement raises is discarded and the
  store is left as it was.
\<close>

definition try_alter_game_log :: "db \<Rightarrow> sql_error + db" where
  "try_alter_game_log d =
     (case alter_game_log d of Inl e \<Rightarrow> Inr d | Inr d' \<Rightarrow> Inr d')"

text \<open>
  \<open>UPDATE game_log SET game_id = date || h_name || number_of_game WHERE game_id IS NULL\<close>
\<close>

definition derived_game_id :: "log_row \<Rightarrow> val" where
  "derived_game_id r = sql_concat (sql_concat (date r) (h_name r)) (number_of_game r)"

definition update_row :: "log_row \<Rightarrow> log_row" where
  "update_row r = (if game_id r = Null then r\<lparr>game_id := derived_game_id r\<rparr> else r)"

definition update_game_id :: "db \<Rightarrow> sql_error + db" where
  "update_game_id d =
     (case game_log d of
        None \<Rightarrow> Inl (NoSuchTable ''game_log'')
      | Some t \<Rightarrow>
          if \<not> has_game_id t then Inl (NoSuchColumn ''game_id'')
          else Inr (d\<lparr>game_log := Some (t\<lparr>log_rows := map update_row (log_rows t)\<rparr>)\<rparr>))"

section \<open>Inserting rows\<close>

text \<open>
  A primary key of declared type TEXT, and a compound one, is a unique index: a new row
  collides with a stored one when their key columns are equal and none of them is NULL
  (SQLite lets NULL into such a key and takes NULLs as different from each other).
\<close>

definition pk_conflict :: "val list \<Rightarrow> val list \<Rightarrow> bool" where
  "pk_conflict k k' = (Null \<notin> set k \<and> k = k')"

text \<open>\<open>INSERT OR IGNORE\<close>: the rows are added one after the other, a colliding row is skipped.\<close>

fun insert_or_ignore :: "('r \<Rightarrow> val list) \<Rightarrow> 'r list \<Rightarrow> 'r list \<Rightarrow> 'r list" where
  "insert_or_ignore key t [] = t"
| "insert_or_ignore key t (r # rs) =
     insert_or_ignore key
       (if \<exists>x \<in> set t. pk_conflict (key r) (key x) then t else t @ [r]) rs"

text \<open>A plain \<open>INSERT\<close> fails at the first colliding row.\<close>

fun insert_rows :: "('r \<Rightarrow> val list) \<Rightarrow> 'r list \<Rightarrow> 'r list \<Rightarrow> sql_error + 'r list" where
  "insert_rows key t [] = Inr t"
| "insert_rows key t (r # rs) =
     (if \<exists>x \<in> set t. pk_conflict (key r) (key x) then Inl UniqueFailed
      else insert_rows key (t @ [r]) rs)"

text \<open>
  A foreign key is satisfied by NULL and by a value that is a key of the parent table.
  With \<open>PRAGMA foreign_keys = ON\<close> the rows a statement has added are checked, and the
  statement fails as a whole when one of them violates a constraint.
\<close>

definition references :: "val list \<Rightarrow> val \<Rightarrow> bool" where
  "references parent_keys v = (v = Null \<or> v \<in> set parent_keys)"

definition added :: "'r list \<Rightarrow> 'r list \<Rightarrow> 'r list" where
  "added t t' = drop (length t) t'"

subsection \<open>Compound \<open>SELECT\<close>\<close>

text \<open>
  \<open>UNION\<close> removes duplicate rows, NULLs counting as equal. SQLite collects the rows of all
  branches in an index over the whole row and hands them on in the order of that index;
  SQL itself leaves the order open. \<open>cols\<close> gives the columns of a row in the order of
  the \<open>SELECT\<close>.
\<close>

fun row_less :: "val list \<Rightarrow> val list \<Rightarrow> bool" where
  "row_less [] [] = False"
| "row_less [] (y # ys) = True"
| "row_less (x # xs) [] = False"
| "row_less (x # xs) (y # ys) = (if x = y then row_less xs ys else val_less x y)"

fun place :: "('r \<Rightarrow> val list) \<Rightarrow> 'r \<Rightarrow> 'r list \<Rightarrow> 'r list" where
  "place cols x [] = [x]"
| "place cols x (y # ys) =
     (if row_less (cols x) (cols y) then x # y # ys else y # place cols x ys)"

definition union_add :: "('r \<Rightarrow> val list) \<Rightarrow> 'r list \<Rightarrow> 'r \<Rightarrow> 'r list" where
  "union_add cols acc x = (if cols x \<in> set (map cols acc) then acc else place cols x acc)"

definition sql_union :: "('r \<Rightarrow> val list) \<Rightarrow> 'r list list \<Rightarrow> 'r list" where
  "sql_union cols branches = foldl (union_add cols) [] (concat branches)"

section \<open>Tables without foreign keys\<close>

text \<open>\<open>CREATE TABLE IF NOT EXISTS person\<close>; \<open>INSERT OR IGNORE INTO person SELECT id, first, last FROM person_codes\<close>\<close>

definition create_person :: "db \<Rightarrow> sql_error + db" where
  "create_person d = (case person d of None \<Rightarrow> Inr (d\<lparr>person := Some []\<rparr>) | Some t \<Rightarrow> Inr d)"

definition person_of_code :: "person_code \<Rightarrow> person_row" where
  "person_of_code c = \<lparr>p_person_id = text_affinity (pc_id c),
     p_first_name = text_affinity (pc_first c), p_last_name = text_affinity (pc_last c)\<rparr>"

definition person_key :: "person_row \<Rightarrow> val list" where
  "person_key r = [p_person_id r]"

definition insert_person :: "db \<Rightarrow> sql_error + db" where
  "insert_person d =
     (case person d of
        None \<Rightarrow> Inl (NoSuchTable ''person'')
      | Some t \<Rightarrow>
          (case person_codes d of
             None \<Rightarrow> Inl (NoSuchTable ''person_codes'')
           | Some cs \<Rightarrow>
               Inr (d\<lparr>person := Some (insert_or_ignore person_key t (map person_of_code cs))\<rparr>)))"

text \<open>\<open>CREATE TABLE IF NOT EXISTS park\<close>; \<open>INSERT OR IGNORE INTO park SELECT park_id, name, aka, city, state, notes FROM park_codes\<close>\<close>

definition create_park :: "db \<Rightarrow> sql_error + db" where
  "create_park d = (case park d of None \<Rightarrow> Inr (d\<lparr>park := Some []\<rparr>) | Some t \<Rightarrow> Inr d)"

definition park_of_code :: "park_code \<Rightarrow> park_row" where
  "park_of_code c = \<lparr>k_park_id = text_affinity (kc_park_id c), k_name = text_affinity (kc_name c),
     k_nickname = text_affinity (kc_aka c), k_city = text_affinity (kc_city c),
     k_state = text_affinity (kc_state c), k_notes = text_affinity (kc_notes c)\<rparr>"

definition park_key :: "park_row \<Rightarrow> val list" where
  "park_key r = [k_park_id r]"

definition insert_park :: "db \<Rightarrow> sql_error + db" where
  "insert_park d =
     (case park d of
        None \<Rightarrow> Inl (NoSuchTable ''park'')
      | Some t \<Rightarrow>
          (case park_codes d of
             None \<Rightarrow> Inl (NoSuchTable ''park_codes'')
           | Some cs \<Rightarrow>
               Inr (d\<lparr>park := Some (insert_or_ignore park_key t (map park_of_code cs))\<rparr>)))"

text \<open>\<open>CREATE TABLE IF NOT EXISTS league\<close>; \<open>INSERT OR IGNORE INTO league VALUES ...\<close>\<close>

definition create_league :: "db \<Rightarrow> sql_error + db" where
  "create_league d = (case league d of None \<Rightarrow> Inr (d\<lparr>league := Some []\<rparr>) | Some t \<Rightarrow> Inr d)"

definition league_values :: "league_row list" where
  "league_values =
     [\<lparr>l_league_id = TextV ''NL'', l_name = TextV ''National League''\<rparr>,
      \<lparr>l_league_id = TextV ''AL'', l_name = TextV ''American League''\<rparr>,
      \<lparr>l_league_id = TextV ''AA'', l_name = TextV ''American Association''\<rparr>,
      \<lparr>l_league_id = TextV ''FL'', l_name = TextV ''Federal League''\<rparr>,
      \<lparr>l_league_id = TextV ''PL'', l_name = TextV ''Players League''\<rparr>,
      \<lparr>l_league_id = TextV ''UA'', l_name = TextV ''Union Association''\<rparr>]"

definition league_key :: "league_row \<Rightarrow> val list" where
  "league_key r = [l_league_id r]"

definition insert_league :: "db \<Rightarrow> sql_error + db" where
  "insert_league d =
     (case league d of
        None \<Rightarrow> Inl (NoSuchTable ''league'')
      | Some t \<Rightarrow> Inr (d\<lparr>league := Some (insert_or_ignore league_key t league_values)\<rparr>))"

text \<open>
  Cell 19: \<open>DROP TABLE IF EXISTS appearance_type\<close>, \<open>CREATE TABLE appearance_type\<close>, and the
  rows of \<open>appearance_type.csv\<close> appended by \<open>to_sql\<close>. Under foreign-key enforcement
  \<open>DROP TABLE\<close> first deletes the rows of the table, and fails when a row of
  \<open>person_appearance\<close> refers to one of them. \<open>to_sql\<close> with \<open>if_exists='append'\<close> writes
  a table of its own when there is none; in the cell the table has just been created.
\<close>

definition appearance_type_key :: "appearance_type_row \<Rightarrow> val list" where
  "appearance_type_key r = [at_appearance_type_id r]"

definition drop_appearance_type :: "db \<Rightarrow> sql_error + db" where
  "drop_appearance_type d =
     (case appearance_type d of
        None \<Rightarrow> Inr d
      | Some t \<Rightarrow>
          (case person_appearance d of
             None \<Rightarrow> Inr (d\<lparr>appearance_type := None\<rparr>)
           | Some pa \<Rightarrow>
               if \<exists>r \<in> set pa. pa_appearance_type_id r \<noteq> Null
                    \<and> pa_appearance_type_id r \<in> set (map at_appearance_type_id t)
               then Inl ForeignKeyFailed
               else Inr (d\<lparr>appearance_type := None\<rparr>)))"

definition create_appearance_type :: "db \<Rightarrow> sql_error + db" where
  "create_appearance_type d =
     (case appearance_type d of
        None \<Rightarrow> Inr (d\<lparr>appearance_type := Some []\<rparr>)
      | Some t \<Rightarrow> Inl (TableExists ''appearance_type''))"

definition appearance_type_of_csv :: "appearance_type_row \<Rightarrow> appearance_type_row" where
  "appearance_type_of_csv c = \<lparr>at_appearance_type_id = text_affinity (at_appearance_type_id c),
     at_name = text_affinity (at_name c), at_category = text_affinity (at_category c)\<rparr>"

definition append_appearance_type :: "appearance_type_row list \<Rightarrow> db \<Rightarrow> sql_error + db" where
  "append_appearance_type csv d =
     (case appearance_type d of
        None \<Rightarrow> Inr (d\<lparr>appearance_type := Some (map appearance_type_of_csv csv)\<rparr>)
      | Some t \<Rightarrow>
          (case insert_rows appearance_type_key t (map appearance_type_of_csv csv) of
             Inl e \<Rightarrow> Inl e
           | Inr t' \<Rightarrow> Inr (d\<lparr>appearance_type := Some t'\<rparr>)))"

section \<open>The team and game tables\<close>

text \<open>
  \<open>CREATE TABLE IF NOT EXISTS team\<close> with \<open>FOREIGN KEY (league_id) REFERENCES league\<close>;
  \<open>INSERT OR IGNORE INTO team SELECT team_id, league, city, nickname, franch_id FROM team_codes\<close>
\<close>

definition create_team :: "db \<Rightarrow> sql_error + db" where
  "create_team d = (case team d of None \<Rightarrow> Inr (d\<lparr>team := Some []\<rparr>) | Some t \<Rightarrow> Inr d)"

definition team_of_code :: "team_code \<Rightarrow> team_row" where
  "team_of_code c = \<lparr>t_team_id = text_affinity (tc_team_id c),
     t_league_id = text_affinity (tc_league c), t_city = text_affinity (tc_city c),
     t_nickname = text_affinity (tc_nickname c), t_franch_id = text_affinity (tc_franch_id c)\<rparr>"

definition team_key :: "team_row \<Rightarrow> val list" where
  "team_key r = [t_team_id r]"

definition insert_team :: "db \<Rightarrow> sql_error + db" where
  "insert_team d =
     (case team d of
        None \<Rightarrow> Inl (NoSuchTable ''team'')
      | Some t \<Rightarrow>
          (case team_codes d of
             None \<Rightarrow> Inl (NoSuchTable ''team_codes'')
           | Some cs \<Rightarrow>
               (case league d of
                  None \<Rightarrow> Inl (NoSuchTable ''league'')
                | Some lg \<Rightarrow>
                    (let t' = insert_or_ignore team_key t (map team_of_code cs) in
                     if \<forall>r \<in> set (added t t'). references (map l_league_id lg) (t_league_id r)
                     then Inr (d\<lparr>team := Some t'\<rparr>)
                     else Inl ForeignKeyFailed))))"

text \<open>
  \<open>CREATE TABLE IF NOT EXISTS game\<close> with \<open>FOREIGN KEY (park_id) REFERENCES park\<close>;
  \<open>INSERT OR IGNORE INTO game SELECT game_id, date, number_of_game, park_id, length_outs,
  CASE WHEN day_night = "D" THEN 1 WHEN day_night = "N" THEN 0 ELSE NULL END AS day, ... FROM game_log\<close>.
  The column \<open>day\<close> is declared BOOLEAN, which stores the integers 1 and 0 as they are;
  \<open>number_of_game\<close> and the eight columns of \<open>game_info\<close> are carried as selected.
  No column of \<open>game_log\<close> is called \<open>D\<close> or \<open>N\<close>, so the double-quoted \<open>"D"\<close> and \<open>"N"\<close> are
  read as text.
\<close>

definition create_game :: "db \<Rightarrow> sql_error + db" where
  "create_game d = (case game d of None \<Rightarrow> Inr (d\<lparr>game := Some []\<rparr>) | Some t \<Rightarrow> Inr d)"

definition day_of :: "val \<Rightarrow> val" where
  "day_of dn = (if sql_eq dn (TextV ''D'') then IntV 1
                else if sql_eq dn (TextV ''N'') then IntV 0
                else Null)"

definition game_of_log :: "log_row \<Rightarrow> game_row" where
  "game_of_log r = \<lparr>g_game_id = text_affinity (game_id r), g_date = text_affinity (date r),
     g_number_of_game = number_of_game r, g_park_id = text_affinity (park_id r),
     g_day = day_of (day_night r), g_info = game_info r\<rparr>"

definition game_key :: "game_row \<Rightarrow> val list" where
  "game_key r = [g_game_id r]"

definition insert_game :: "db \<Rightarrow> sql_error + db" where
  "insert_game d =
     (case game d of
        None \<Rightarrow> Inl (NoSuchTable ''game'')
      | Some t \<Rightarrow>
          (case game_log d of
             None \<Rightarrow> Inl (NoSuchTable ''game_log'')
           | Some lg \<Rightarrow>
               if \<not> has_game_id lg then Inl (NoSuchColumn ''game_id'')
               else
                 (case park d of
                    None \<Rightarrow> Inl (NoSuchTable ''park'')
                  | Some pk \<Rightarrow>
                      (let t' = insert_or_ignore game_key t (map game_of_log (log_rows lg)) in
                       if \<forall>r \<in> set (added t t'). references (map k_park_id pk) (g_park_id r)
                       then Inr (d\<lparr>game := Some t'\<rparr>)
                       else Inl ForeignKeyFailed))))"

section \<open>The team appearance table\<close>

text \<open>
  \<open>CREATE TABLE IF NOT EXISTS team_appearance\<close> with \<open>PRIMARY KEY (team_id, game_id)\<close>,
  \<open>FOREIGN KEY (team_id) REFERENCES team(team_id)\<close>,
  \<open>FOREIGN KEY (game_id) REFERENCES game(game_id)\<close> and, a second time,
  \<open>FOREIGN KEY (team_id) REFERENCES team(team_id)\<close>: no constraint is declared on
  \<open>league_id\<close>. The statement inserts the \<open>UNION\<close> of the \<open>h_*\<close> columns with \<open>1 AS home\<close> and
  the \<open>v_*\<close> columns with \<open>0 AS home\<close>.
\<close>

definition create_team_appearance :: "db \<Rightarrow> sql_error + db" where
  "create_team_appearance d =
     (case team_appearance d of None \<Rightarrow> Inr (d\<lparr>team_appearance := Some []\<rparr>) | Some t \<Rightarrow> Inr d)"

definition home_select :: "log_row \<Rightarrow> team_appearance_row" where
  "home_select r = \<lparr>ta_team_id = h_name r, ta_game_id = game_id r, ta_home = IntV 1,
     ta_league_id = h_league r, ta_score = h_score r, ta_stats = h_stats r\<rparr>"

definition visiting_select :: "log_row \<Rightarrow> team_appearance_row" where
  "visiting_select r = \<lparr>ta_team_id = v_name r, ta_game_id = game_id r, ta_home = IntV 0,
     ta_league_id = v_league r, ta_score = v_score r, ta_stats = v_stats r\<rparr>"

definition team_appearance_cols :: "team_appearance_row \<Rightarrow> val list" where
  "team_appearance_cols x =
     [ta_team_id x, ta_game_id x, ta_home x, ta_league_id x, ta_score x] @ ta_stats x"

definition team_appearance_select :: "log_row list \<Rightarrow> team_appearance_row list" where
  "team_appearance_select lg =
     sql_union team_appearance_cols [map home_select lg, map visiting_select lg]"

text \<open>
  Stored into the table, \<open>team_id\<close>, \<open>game_id\<close> and \<open>league_id\<close> take the TEXT affinity of
  their columns. The score and statistics columns are carried as selected.
\<close>

definition team_appearance_store :: "team_appearance_row \<Rightarrow> team_appearance_row" where
  "team_appearance_store x = x\<lparr>ta_team_id := text_affinity (ta_team_id x),
     ta_game_id := text_affinity (ta_game_id x), ta_league_id := text_affinity (ta_league_id x)\<rparr>"

definition team_appearance_key :: "team_appearance_row \<Rightarrow> val list" where
  "team_appearance_key x = [ta_team_id x, ta_game_id x]"

definition insert_team_appearance :: "db \<Rightarrow> sql_error + db" where
  "insert_team_appearance d =
     (case team_appearance d of
        None \<Rightarrow> Inl (NoSuchTable ''team_appearance'')
      | Some t \<Rightarrow>
          (case game_log d of
             None \<Rightarrow> Inl (NoSuchTable ''game_log'')
           | Some lg \<Rightarrow>
               if \<not> has_game_id lg then Inl (NoSuchColumn ''game_id'')
               else
                 (case team d of
                    None \<Rightarrow> Inl (NoSuchTable ''team'')
                  | Some tm \<Rightarrow>
                      (case game d of
                         None \<Rightarrow> Inl (NoSuchTable ''game'')
                       | Some gm \<Rightarrow>
                           (let t' = insert_or_ignore team_appearance_key t
                                       (map team_appearance_store
                                          (team_appearance_select (log_rows lg))) in
                            if \<forall>x \<in> set (added t t').
                                 references (map t_team_id tm) (ta_team_id x)
                                 \<and> references (map g_game_id gm) (ta_game_id x)
                            then Inr (d\<lparr>team_appearance := Some t'\<rparr>)
                            else Inl ForeignKeyFailed)))))"

section \<open>The person appearance table\<close>

text \<open>
  \<open>DROP TABLE IF EXISTS person_appearance\<close>: no table refers to \<open>person_appearance\<close>.
  \<open>CREATE TABLE person_appearance\<close> has no \<open>IF NOT EXISTS\<close>; its primary key
  \<open>appearance_id INTEGER PRIMARY KEY\<close> is filled in by SQLite, and it declares foreign keys
  to \<open>person\<close>, \<open>team\<close>, \<open>game\<close> and \<open>appearance_type\<close> and no other constraint.
\<close>

definition drop_person_appearance :: "db \<Rightarrow> sql_error + db" where
  "drop_person_appearance d = Inr (d\<lparr>person_appearance := None\<rparr>)"

definition create_person_appearance :: "db \<Rightarrow> sql_error + db" where
  "create_person_appearance d =
     (case person_appearance d of
        None \<Rightarrow> Inr (d\<lparr>person_appearance := Some []\<rparr>)
      | Some t \<Rightarrow> Inl (TableExists ''person_appearance''))"

text \<open>
  One branch \<open>SELECT game_id, team, person, tag FROM game_log WHERE person IS NOT NULL\<close>.
\<close>

definition select_appearance ::
  "(log_row \<Rightarrow> val) \<Rightarrow> (log_row \<Rightarrow> val) \<Rightarrow> (log_row \<Rightarrow> val) \<Rightarrow> log_row list \<Rightarrow> appearance list" where
  "select_appearance team_col person_col tag lg =
     map (\<lambda>r. \<lparr>a_game_id = game_id r, a_team_id = team_col r, a_person_id = person_col r,
               a_appearance_type_id = tag r\<rparr>)
       (filter (\<lambda>r. person_col r \<noteq> Null) lg)"

definition appearance_cols :: "appearance \<Rightarrow> val list" where
  "appearance_cols a = [a_game_id a, a_team_id a, a_person_id a, a_appearance_type_id a]"

text \<open>\<open>CASE WHEN h_score > v_score THEN h_name ELSE v_name END\<close> and its counterpart with \<open><\<close>.\<close>

definition winning_team :: "log_row \<Rightarrow> val" where
  "winning_team r = (if sql_gt (h_score r) (v_score r) then h_name r else v_name r)"

definition losing_team :: "log_row \<Rightarrow> val" where
  "losing_team r = (if sql_lt (h_score r) (v_score r) then h_name r else v_name r)"

text \<open>
  The statement \<open>c2\<close>: the \<open>UNION\<close> of fourteen branches, in the order of the source. The
  double-quoted tags are read as text, no column of \<open>game_log\<close> bearing such a name.
\<close>

definition c2_branches :: "log_row list \<Rightarrow> appearance list list" where
  "c2_branches lg =
     [select_appearance (\<lambda>r. Null) hp_umpire_id (\<lambda>r. TextV ''UHP'') lg,
      select_appearance (\<lambda>r. Null) umpire_1b_id (\<lambda>r. TextV ''U1B'') lg,
      select_appearance (\<lambda>r. Null) umpire_2b_id (\<lambda>r. TextV ''U2B'') lg,
      select_appearance (\<lambda>r. Null) umpire_3b_id (\<lambda>r. TextV ''U3B'') lg,
      select_appearance (\<lambda>r. Null) lf_umpire_id (\<lambda>r. TextV ''ULF'') lg,
      select_appearance (\<lambda>r. Null) rf_umpire_id (\<lambda>r. TextV ''URF'') lg,
      select_appearance v_name v_manager_id (\<lambda>r. TextV ''MM'') lg,
      select_appearance h_name h_manager_id (\<lambda>r. TextV ''MM'') lg,
      select_appearance winning_team winning_pitcher_id (\<lambda>r. TextV ''AWP'') lg,
      select_appearance losing_team losing_pitcher_id (\<lambda>r. TextV ''ALP'') lg,
      select_appearance winning_team saving_pitcher_id (\<lambda>r. TextV ''ASP'') lg,
      select_appearance winning_team winning_rbi_batter_id (\<lambda>r. TextV ''AWB'') lg,
      select_appearance v_name v_starting_pitcher_id (\<lambda>r. TextV ''PSP'') lg,
      select_appearance h_name h_starting_pitcher_id (\<lambda>r. TextV ''PSP'') lg]"

definition c2_select :: "log_row list \<Rightarrow> appearance list" where
  "c2_select lg = sql_union appearance_cols (c2_branches lg)"

text \<open>
  The statement \<open>template.format(hv=hv, num=num)\<close>: the \<open>UNION\<close> of the offensive branch,
  tagged \<open>"O{num}"\<close>, and the defensive branch, tagged
  \<open>"D" || CAST({hv}_player_{num}_def_pos AS INT)\<close>.
\<close>

definition name_of :: "hv \<Rightarrow> log_row \<Rightarrow> val" where
  "name_of s r = (case s of H \<Rightarrow> h_name r | V \<Rightarrow> v_name r)"

definition offensive_tag :: "nat \<Rightarrow> val" where
  "offensive_tag num = TextV (''O'' @ nat_text num)"

definition defensive_tag :: "val \<Rightarrow> val" where
  "defensive_tag def_pos = sql_concat (TextV ''D'') (cast_int def_pos)"

definition template_branches :: "hv \<Rightarrow> nat \<Rightarrow> log_row list \<Rightarrow> appearance list list" where
  "template_branches s num lg =
     [select_appearance (name_of s) (\<lambda>r. player_id r s num) (\<lambda>r. offensive_tag num) lg,
      select_appearance (name_of s) (\<lambda>r. player_id r s num)
        (\<lambda>r. defensive_tag (player_def_pos r s num)) lg]"

definition template_select :: "hv \<Rightarrow> nat \<Rightarrow> log_row list \<Rightarrow> appearance list" where
  "template_select s num lg = sql_union appearance_cols (template_branches s num lg)"

text \<open>
  Storing the selected rows: each gets the next \<open>appearance_id\<close> (one more than the
  largest in the table, 1 in an empty table); \<open>person_id\<close>, \<open>team_id\<close> and \<open>game_id\<close> take
  the TEXT affinity of their columns, \<open>appearance_type_id\<close> is declared without a type.
  No existing row can collide, so \<open>OR IGNORE\<close> skips nothing.
\<close>

definition next_rowid :: "person_appearance_row list \<Rightarrow> int" where
  "next_rowid t = foldl max 0 (map pa_appearance_id t) + 1"

fun number_from :: "int \<Rightarrow> appearance list \<Rightarrow> person_appearance_row list" where
  "number_from n [] = []"
| "number_from n (a # as) =
     \<lparr>pa_appearance_id = n, pa_person_id = text_affinity (a_person_id a),
      pa_team_id = text_affinity (a_team_id a), pa_game_id = text_affinity (a_game_id a),
      pa_appearance_type_id = a_appearance_type_id a\<rparr> # number_from (n + 1) as"

definition insert_person_appearance :: "(log_row list \<Rightarrow> appearance list) \<Rightarrow> db \<Rightarrow> sql_error + db" where
  "insert_person_appearance sel d =
     (case person_appearance d of
        None \<Rightarrow> Inl (NoSuchTable ''person_appearance'')
      | Some t \<Rightarrow>
          (case game_log d of
             None \<Rightarrow> Inl (NoSuchTable ''game_log'')
           | Some lg \<Rightarrow>
               if \<not> has_game_id lg then Inl (NoSuchColumn ''game_id'')
               else
                 (case (person d, team d, game d, appearance_type d) of
                    (Some ps, Some tm, Some gm, Some ty) \<Rightarrow>
                      (let new = number_from (next_rowid t) (sel (log_rows lg)) in
                       if \<forall>x \<in> set new.
                            references (map p_person_id ps) (pa_person_id x)
                            \<and> references (map t_team_id tm) (pa_team_id x)
                            \<and> references (map g_game_id gm) (pa_game_id x)
                            \<and> references (map at_appearance_type_id ty) (pa_appearance_type_id x)
                       then Inr (d\<lparr>person_appearance := Some (t @ new)\<rparr>)
                       else Inl ForeignKeyFailed)
                  | (None, b) \<Rightarrow> Inl (NoSuchTable ''person'')
                  | (a, None, c) \<Rightarrow> Inl (NoSuchTable ''team'')
                  | (a, b, None, c) \<Rightarrow> Inl (NoSuchTable ''game'')
                  | (a, b, c, None) \<Rightarrow> Inl (NoSuchTable ''appearance_type''))))"

definition insert_c2 :: "db \<Rightarrow> sql_error + db" where
  "insert_c2 = insert_person_appearance c2_select"

definition insert_template :: "hv \<Rightarrow> nat \<Rightarrow> db \<Rightarrow> sql_error + db" where
  "insert_template s num = insert_person_appearance (template_select s num)"

section \<open>Removing the raw tables and the whole script\<close>

text \<open>\<open>DROP TABLE t\<close> for the four raw tables, to which no table refers.\<close>

definition drop_game_log :: "db \<Rightarrow> sql_error + db" where
  "drop_game_log d = (case game_log d of None \<Rightarrow> Inl (NoSuchTable ''game_log'')
                      | Some t \<Rightarrow> Inr (d\<lparr>game_log := None\<rparr>))"

definition drop_park_codes :: "db \<Rightarrow> sql_error + db" where
  "drop_park_codes d = (case park_codes d of None \<Rightarrow> Inl (NoSuchTable ''park_codes'')
                        | Some t \<Rightarrow> Inr (d\<lparr>park_codes := None\<rparr>))"

definition drop_team_codes :: "db \<Rightarrow> sql_error + db" where
  "drop_team_codes d = (case team_codes d of None \<Rightarrow> Inl (NoSuchTable ''team_codes'')
                        | Some t \<Rightarrow> Inr (d\<lparr>team_codes := None\<rparr>))"

definition drop_person_codes :: "db \<Rightarrow> sql_error + db" where
  "drop_person_codes d = (case person_codes d of None \<Rightarrow> Inl (NoSuchTable ''person_codes'')
                          | Some t \<Rightarrow> Inr (d\<lparr>person_codes := None\<rparr>))"

text \<open>Statements run one after the other; the first that raises ends the script.\<close>

fun run_all :: "(db \<Rightarrow> sql_error + db) list \<Rightarrow> db \<Rightarrow> sql_error + db" where
  "run_all [] d = Inr d"
| "run_all (c # cs) d = (case c d of Inl e \<Rightarrow> Inl e | Inr d' \<Rightarrow> run_all cs d')"

text \<open>\<open>for hv in ["h","v"]: for num in range(1,10): run_command(template.format(...))\<close>\<close>

definition template_loop :: "(db \<Rightarrow> sql_error + db) list" where
  "template_loop = concat (map (\<lambda>s. map (\<lambda>num. insert_template s num) [1..<10]) [H, V])"

definition migrate :: "raw_inputs \<Rightarrow> db \<Rightarrow> sql_error + db" where
  "migrate inp =
     run_all ([load_tables inp, try_alter_game_log, update_game_id,
               create_person, insert_person,
               create_park, insert_park,
               create_league, insert_league,
               drop_appearance_type, create_appearance_type,
               append_appearance_type (in_appearance_type inp),
               create_team, insert_team,
               create_game, insert_game,
               create_team_appearance, insert_team_appearance,
               drop_person_appearance, create_person_appearance, insert_c2]
              @ template_loop
              @ [drop_game_log, drop_park_codes, drop_team_codes, drop_person_codes])"

section \<open>Reading the person appearance table\<close>

text \<open>
  \<open>stored_as x g tm p ty\<close>: the row \<open>x\<close> of \<open>person_appearance\<close> is what the table holds for
  the selected row \<open>(g, tm, p, ty)\<close>. \<open>umpire_tags\<close> are the tags of the six umpire branches
  of \<open>c2\<close>.
\<close>

definition stored_as :: "person_appearance_row \<Rightarrow> val \<Rightarrow> val \<Rightarrow> val \<Rightarrow> val \<Rightarrow> bool" where
  "stored_as x g tm p ty =
     (pa_game_id x = text_affinity g \<and> pa_team_id x = text_affinity tm
      \<and> pa_person_id x = text_affinity p \<and> pa_appearance_type_id x = ty)"

definition umpire_tags :: "val list" where
  "umpire_tags = [TextV ''UHP'', TextV ''U1B'', TextV ''U2B'', TextV ''U3B'', TextV ''ULF'',
     TextV ''URF'']"

section \<open>Example stores\<close>

text \<open>Concrete rows and stores, on which the statements are evaluated below.\<close>

text \<open>
  A row of \<open>game_log\<close> with every cell NULL, and the game of 4 May 1871 at Fort Wayne (FW1
  against CL1, a day game, 2 to 0) with its row of \<open>game\<close>.
\<close>

definition blank_row :: log_row where
  "blank_row = \<lparr>date = Null, number_of_game = Null, day_night = Null, park_id = Null,
     game_info = [], h_name = Null, v_name = Null, h_league = Null, v_league = Null,
     h_score = Null, v_score = Null, h_stats = [], v_stats = [],
     hp_umpire_id = Null, umpire_1b_id = Null, umpire_2b_id = Null, umpire_3b_id = Null,
     lf_umpire_id = Null, rf_umpire_id = Null, h_manager_id = Null, v_manager_id = Null,
     winning_pitcher_id = Null, losing_pitcher_id = Null, saving_pitcher_id = Null,
     winning_rbi_batter_id = Null, h_starting_pitcher_id = Null, v_starting_pitcher_id = Null,
     player_id = (\<lambda>s n. Null), player_def_pos = (\<lambda>s n. Null), game_id = Null\<rparr>"

definition fort_wayne_row :: log_row where
  "fort_wayne_row = blank_row\<lparr>date := IntV 18710504, number_of_game := IntV 0,
     h_name := TextV ''FW1'', v_name := TextV ''CL1'', day_night := TextV ''D'',
     h_score := IntV 2, v_score := IntV 0\<rparr>"

definition log_db :: "bool \<Rightarrow> log_row list \<Rightarrow> db" where
  "log_db c rows = empty_db\<lparr>game_log := Some \<lparr>has_game_id = c, log_rows = rows\<rparr>\<rparr>"

definition fort_wayne_game :: game_row where
  "fort_wayne_game = \<lparr>g_game_id = TextV ''18710504FW10'', g_date = TextV ''18710504'',
     g_number_of_game = IntV 0, g_park_id = Null, g_day = IntV 1, g_info = []\<rparr>"

text \<open>
  A store with the given rows of \<open>game_log\<close>, the given persons and appearance types, the
  teams FW1 and CL1 and the Fort Wayne game, and an empty \<open>person_appearance\<close>.
\<close>

definition named_person :: "string \<Rightarrow> person_row" where
  "named_person i = \<lparr>p_person_id = TextV i, p_first_name = Null, p_last_name = Null\<rparr>"

definition named_team :: "string \<Rightarrow> team_row" where
  "named_team i = \<lparr>t_team_id = TextV i, t_league_id = Null, t_city = Null, t_nickname = Null,
     t_franch_id = Null\<rparr>"

definition named_type :: "string \<Rightarrow> appearance_type_row" where
  "named_type i = \<lparr>at_appearance_type_id = TextV i, at_name = Null, at_category = Null\<rparr>"

definition store_of :: "log_row list \<Rightarrow> string list \<Rightarrow> string list \<Rightarrow> db" where
  "store_of rows people types =
     empty_db\<lparr>game_log := Some \<lparr>has_game_id = True, log_rows = rows\<rparr>,
       person := Some (map named_person people),
       team := Some [named_team ''FW1'', named_team ''CL1''],
       game := Some [fort_wayne_game],
       appearance_type := Some (map named_type types),
       person_appearance := Some []\<rparr>"

text \<open>
  Rows of the Fort Wayne game: with a winning and a losing pitcher; with a home manager
  and no home team name; with a player in slot 1 of the home side at a given position;
  with one player in the slots 1 and 2 at position 3; with the same team on both sides;
  with a home league that is no league.
\<close>

definition award_row :: log_row where
  "award_row = fort_wayne_row\<lparr>game_id := TextV ''18710504FW10'',
     winning_pitcher_id := TextV ''p1'', losing_pitcher_id := TextV ''p2''\<rparr>"

definition no_home_row :: log_row where
  "no_home_row = fort_wayne_row\<lparr>game_id := TextV ''18710504FW10'', h_name := Null,
     h_manager_id := TextV ''m1''\<rparr>"


definition twice_row :: log_row where
  "twice_row = fort_wayne_row\<lparr>game_id := TextV ''18710504FW10'',
     player_id := (\<lambda>s n. if s = H \<and> (n = 1 \<or> n = 2) then TextV ''p1'' else Null),
     player_def_pos := (\<lambda>s n. if s = H \<and> (n = 1 \<or> n = 2) then IntV 3 else Null)\<rparr>"

definition same_team_row :: log_row where
  "same_team_row = fort_wayne_row\<lparr>game_id := TextV ''18710504FW10'', v_name := TextV ''FW1''\<rparr>"

definition other_league_row :: log_row where
  "other_league_row = fort_wayne_row\<lparr>game_id := TextV ''18710504FW10'', h_league := TextV ''XX''\<rparr>"

definition team_store :: "log_row list \<Rightarrow> db" where
  "team_store rows = (store_of rows [] [])\<lparr>league := Some league_values, team_appearance := Some []\<rparr>"

text \<open>
  The inputs of a first run, one game with its home manager, and the store that the
  script leaves of them.
\<close>

definition manager_row :: log_row where
  "manager_row = fort_wayne_row\<lparr>h_manager_id := TextV ''m1''\<rparr>"

definition first_inputs :: raw_inputs where
  "first_inputs = \<lparr>in_game_log = [manager_row],
     in_person_codes = [\<lparr>pc_id = TextV ''m1'', pc_first = Null, pc_last = Null\<rparr>],
     in_team_codes = [\<lparr>tc_team_id = TextV ''FW1'', tc_league = Null, tc_city = Null,
                        tc_nickname = Null, tc_franch_id = Null\<rparr>,
                      \<lparr>tc_team_id = TextV ''CL1'', tc_league = Null, tc_city = Null,
                        tc_nickname = Null, tc_franch_id = Null\<rparr>],
     in_park_codes = [],
     in_appearance_type = [named_type ''MM'']\<rparr>"

definition first_store :: db where
  "first_store = empty_db\<lparr>person := Some [named_person ''m1''], park := Some [],
     league := Some league_values, appearance_type := Some [named_type ''MM''],
     team := Some [named_team ''FW1'', named_team ''CL1''],
     game := Some [fort_wayne_game],
     team_appearance := Some
       [\<lparr>ta_team_id = TextV ''CL1'', ta_game_id = TextV ''18710504FW10'', ta_home = IntV 0,
         ta_league_id = Null, ta_score = IntV 0, ta_stats = []\<rparr>,
        \<lparr>ta_team_id = TextV ''FW1'', ta_game_id = TextV ''18710504FW10'', ta_home = IntV 1,
         ta_league_id = Null, ta_score = IntV 2, ta_stats = []\<rparr>],
     person_appearance := Some
       [\<lparr>pa_appearance_id = 1, pa_person_id = TextV ''m1'', pa_team_id = TextV ''FW1'',
         pa_game_id = TextV ''18710504FW10'', pa_appearance_type_id = TextV ''MM''\<rparr>]\<rparr>"

section \<open>Inserting and selecting: general facts\<close>

subsection \<open>Insert or ignore, and the union of selects\<close>

lemma insert_or_ignore_extends:
  "\<exists>ys. insert_or_ignore key t rs = t @ ys \<and> set ys \<subseteq> set rs"
proof (induction rs arbitrary: t)
  case Nil
  show ?case by simp
next
  case (Cons r rs)
  show ?case
  proof (cases "\<exists>x \<in> set t. pk_conflict (key r) (key x)")
    case True
    with Cons.IH [of t] show ?thesis by auto
  next
    case False
    from Cons.IH [of "t @ [r]"] obtain ys where
      "insert_or_ignore key (t @ [r]) rs = (t @ [r]) @ ys" "set ys \<subseteq> set rs" by blast
    with False show ?thesis by (intro exI [of _ "r # ys"]) auto
  qed
qed

lemma added_append: "added t (t @ ys) = ys"
  by (simp add: added_def)



lemma set_place: "set (place cols x ys) = insert x (set ys)"
  by (induction ys) auto

lemma set_union_add: "set (union_add cols acc x) \<subseteq> insert x (set acc)"
  by (auto simp: union_add_def set_place)

lemma cols_union_add: "cols ` set (union_add cols acc x) = insert (cols x) (cols ` set acc)"
  by (auto simp: union_add_def set_place)

lemma distinct_place:
  "distinct (map cols ys) \<Longrightarrow> cols x \<notin> cols ` set ys \<Longrightarrow> distinct (map cols (place cols x ys))"
  by (induction ys) (auto simp: set_place)

lemma distinct_union_add:
  "distinct (map cols acc) \<Longrightarrow> distinct (map cols (union_add cols acc x))"
  by (auto simp: union_add_def distinct_place)

lemma foldl_union_add_cols:
  "cols ` set (foldl (union_add cols) acc xs) = cols ` set acc \<union> cols ` set xs"
  by (induction xs arbitrary: acc) (auto simp: cols_union_add)

lemma foldl_union_add_subset:
  "set (foldl (union_add cols) acc xs) \<subseteq> set acc \<union> set xs"
proof (induction xs arbitrary: acc)
  case Nil
  show ?case by simp
next
  case (Cons x xs)
  from Cons.IH [of "union_add cols acc x"] set_union_add [of cols acc x]
  show ?case by auto
qed

lemma foldl_union_add_distinct:
  "distinct (map cols acc) \<Longrightarrow> distinct (map cols (foldl (union_add cols) acc xs))"
  by (induction xs arbitrary: acc) (auto simp: distinct_union_add)

lemma sql_union_distinct: "distinct (map cols (sql_union cols bs))"
  by (simp add: sql_union_def foldl_union_add_distinct)

lemma sql_union_set:
  assumes "inj cols"
  shows "set (sql_union cols bs) = set (concat bs)"
proof
  show "set (sql_union cols bs) \<subseteq> set (concat bs)"
    using foldl_union_add_subset [of cols "[]" "concat bs"] by (simp add: sql_union_def)
  show "set (concat bs) \<subseteq> set (sql_union cols bs)"
  proof
    fix x assume "x \<in> set (concat bs)"
    then have "cols x \<in> cols ` set (sql_union cols bs)"
      unfolding sql_union_def foldl_union_add_cols by blast
    then obtain y where "y \<in> set (sql_union cols bs)" "cols x = cols y" by blast
    with assms show "x \<in> set (sql_union cols bs)" by (auto dest: injD)
  qed
qed

lemma inj_appearance_cols: "inj appearance_cols"
  by (auto simp: inj_def appearance_cols_def)

lemma inj_team_appearance_cols: "inj team_appearance_cols"
  by (auto simp: inj_def team_appearance_cols_def)

lemma insert_or_ignore_mono: "set t \<subseteq> set (insert_or_ignore key t rs)"
  using insert_or_ignore_extends [of key t rs] by auto

lemma insert_or_ignore_present:
  "r \<in> set rs \<Longrightarrow> Null \<notin> set (key r) \<Longrightarrow> \<exists>x \<in> set (insert_or_ignore key t rs). key x = key r"
proof (induction rs arbitrary: t)
  case Nil
  then show ?case by simp
next
  case (Cons a rs)
  show ?case
  proof (cases "r = a")
    case True
    show ?thesis
    proof (cases "\<exists>x \<in> set t. pk_conflict (key a) (key x)")
      case hit: True
      then obtain x where "x \<in> set t" "key x = key r"
        using True by (auto simp: pk_conflict_def)
      then show ?thesis
        using hit insert_or_ignore_mono [of t key rs] by auto
    next
      case False
      then show ?thesis
        using True insert_or_ignore_mono [of "t @ [a]" key rs] by auto
    qed
  next
    case False
    with Cons.prems have "r \<in> set rs" by simp
    from Cons.IH [OF this Cons.prems(2)] show ?thesis by simp
  qed
qed




subsection \<open>The derived game id and the game table\<close>



lemma derived_game_id_update [simp]: "derived_game_id (r\<lparr>game_id := g\<rparr>) = derived_game_id r"
  by (simp add: derived_game_id_def)










subsection \<open>The person appearance statements\<close>

lemma c2_select_set: "set (c2_select lg) = set (concat (c2_branches lg))"
  by (simp add: c2_select_def sql_union_set [OF inj_appearance_cols])

lemma template_select_set: "set (template_select s num lg) = set (concat (template_branches s num lg))"
  by (simp add: template_select_def sql_union_set [OF inj_appearance_cols])

lemma select_appearance_iff:
  "a \<in> set (select_appearance team_col person_col tag lg) \<longleftrightarrow>
     (\<exists>r \<in> set lg. person_col r \<noteq> Null
        \<and> a = \<lparr>a_game_id = game_id r, a_team_id = team_col r, a_person_id = person_col r,
                a_appearance_type_id = tag r\<rparr>)"
  by (auto simp: select_appearance_def)

lemma number_from_length: "length (number_from n as) = length as"
  by (induction as arbitrary: n) auto

lemma number_from_fields:
  "x \<in> set (number_from n as) \<Longrightarrow>
     \<exists>a \<in> set as. pa_person_id x = text_affinity (a_person_id a)
        \<and> pa_team_id x = text_affinity (a_team_id a)
        \<and> pa_game_id x = text_affinity (a_game_id a)
        \<and> pa_appearance_type_id x = a_appearance_type_id a"
  by (induction as arbitrary: n) auto


lemma insert_person_appearance_result:
  assumes "insert_person_appearance sel d = Inr d'" "person_appearance d = Some t"
  shows "\<exists>lg. game_log d = Some lg
           \<and> person_appearance d' = Some (t @ number_from (next_rowid t) (sel (log_rows lg)))"
proof (cases "game_log d")
  case None
  with assms show ?thesis by (simp add: insert_person_appearance_def)
next
  case lg: (Some lg)
  show ?thesis
  proof (cases "has_game_id lg")
    case False
    with assms lg show ?thesis by (simp add: insert_person_appearance_def)
  next
    case col: True
    show ?thesis
    proof (cases "person d")
      case None
      with assms lg col show ?thesis by (simp add: insert_person_appearance_def)
    next
      case ps: (Some ps)
      show ?thesis
      proof (cases "team d")
        case None
        with assms lg col ps show ?thesis by (simp add: insert_person_appearance_def)
      next
        case tm: (Some tm)
        show ?thesis
        proof (cases "game d")
          case None
          with assms lg col ps tm show ?thesis by (simp add: insert_person_appearance_def)
        next
          case gm: (Some gm)
          show ?thesis
          proof (cases "appearance_type d")
            case None
            with assms lg col ps tm gm show ?thesis by (simp add: insert_person_appearance_def)
          next
            case (Some ty)
            with assms lg col ps tm gm show ?thesis
              by (auto simp: insert_person_appearance_def Let_def split: if_splits)
          qed
        qed
      qed
    qed
  qed
qed

lemma insert_person_appearance_added:
  assumes "insert_person_appearance sel d = Inr d'" "person_appearance d = Some t"
  shows "\<exists>lg t'. game_log d = Some lg \<and> person_appearance d' = Some t'
           \<and> added t t' = number_from (next_rowid t) (sel (log_rows lg))"
  using insert_person_appearance_result [OF assms] by (auto simp: added_def)

lemma c2_select_iff:
  "a \<in> set (c2_select lg) \<longleftrightarrow> (\<exists>b \<in> set (c2_branches lg). a \<in> set b)"
  by (simp add: c2_select_set)





lemmas eval_union = sql_union_def union_add_def appearance_cols_def select_appearance_def

lemma award_c2_select:
  "c2_select [award_row] =
     [\<lparr>a_game_id = TextV ''18710504FW10'', a_team_id = TextV ''CL1'', a_person_id = TextV ''p2'',
       a_appearance_type_id = TextV ''ALP''\<rparr>,
      \<lparr>a_game_id = TextV ''18710504FW10'', a_team_id = TextV ''FW1'', a_person_id = TextV ''p1'',
       a_appearance_type_id = TextV ''AWP''\<rparr>]"
  by (simp add: c2_select_def c2_branches_def eval_union award_row_def fort_wayne_row_def
        blank_row_def winning_team_def losing_team_def sql_gt_def sql_lt_def)

lemma award_insert_c2:
  "insert_c2 (store_of [award_row] [''p1'', ''p2''] [''AWP'', ''ALP'']) =
     Inr ((store_of [award_row] [''p1'', ''p2''] [''AWP'', ''ALP''])
       \<lparr>person_appearance := Some
         [\<lparr>pa_appearance_id = 1, pa_person_id = TextV ''p2'', pa_team_id = TextV ''CL1'',
           pa_game_id = TextV ''18710504FW10'', pa_appearance_type_id = TextV ''ALP''\<rparr>,
          \<lparr>pa_appearance_id = 2, pa_person_id = TextV ''p1'', pa_team_id = TextV ''FW1'',
           pa_game_id = TextV ''18710504FW10'', pa_appearance_type_id = TextV ''AWP''\<rparr>]\<rparr>)"
  by (simp add: insert_c2_def insert_person_appearance_def store_of_def award_c2_select
        next_rowid_def references_def named_person_def named_team_def named_type_def
        fort_wayne_game_def)












lemma text_affinity_null [simp]: "text_affinity v = Null \<longleftrightarrow> v = Null"
  by (cases v) auto

lemma null_text_affinity [simp]: "Null = text_affinity v \<longleftrightarrow> v = Null"
  by (cases v) auto

lemma c2_select_team:
  assumes "a \<in> set (c2_select lg)"
  shows "(a_appearance_type_id a \<in> set umpire_tags \<longrightarrow> a_team_id a = Null)
       \<and> (a_appearance_type_id a \<notin> set umpire_tags \<longrightarrow>
            (\<exists>r \<in> set lg. a_team_id a = h_name r \<or> a_team_id a = v_name r))"
  using assms
  by (auto simp: c2_select_set c2_branches_def select_appearance_iff umpire_tags_def
        winning_team_def losing_team_def)

lemma defensive_tag_cases: "defensive_tag v = Null \<or> (\<exists>s. defensive_tag v = TextV (CHR ''D'' # s))"
  by (cases "cast_int v") (auto simp: defensive_tag_def)

lemma defensive_tag_no_umpire: "defensive_tag v \<notin> set umpire_tags"
  using defensive_tag_cases [of v] by (auto simp: umpire_tags_def)

lemma offensive_tag_no_umpire: "offensive_tag num \<notin> set umpire_tags"
  by (auto simp: umpire_tags_def offensive_tag_def)

lemma template_select_team:
  assumes "a \<in> set (template_select s num lg)"
  shows "a_appearance_type_id a \<notin> set umpire_tags
       \<and> (\<exists>r \<in> set lg. a_team_id a = h_name r \<or> a_team_id a = v_name r)"
  using assms
  by (cases s)
     (auto simp: template_select_set template_branches_def select_appearance_iff name_of_def
        defensive_tag_no_umpire offensive_tag_no_umpire)

lemma no_home_c2_select:
  "c2_select [no_home_row] =
     [\<lparr>a_game_id = TextV ''18710504FW10'', a_team_id = Null, a_person_id = TextV ''m1'',
       a_appearance_type_id = TextV ''MM''\<rparr>]"
  by (simp add: c2_select_def c2_branches_def eval_union no_home_row_def fort_wayne_row_def
        blank_row_def)




lemmas eval_store = insert_template_def insert_person_appearance_def store_of_def
  next_rowid_def references_def named_person_def named_team_def named_type_def fort_wayne_game_def






lemmas eval_twice = twice_row_def fort_wayne_row_def blank_row_def name_of_def
  offensive_tag_def defensive_tag_def nat_text.simps digit_char_def int_text_def

lemma twice_template_select_1:
  "template_select H 1 [twice_row] =
     [\<lparr>a_game_id = TextV ''18710504FW10'', a_team_id = TextV ''FW1'', a_person_id = TextV ''p1'',
       a_appearance_type_id = TextV ''D3''\<rparr>,
      \<lparr>a_game_id = TextV ''18710504FW10'', a_team_id = TextV ''FW1'', a_person_id = TextV ''p1'',
       a_appearance_type_id = TextV ''O1''\<rparr>]"
  by (simp add: template_select_def template_branches_def eval_union eval_twice)

lemma twice_template_select_2:
  "template_select H 2 [twice_row] =
     [\<lparr>a_game_id = TextV ''18710504FW10'', a_team_id = TextV ''FW1'', a_person_id = TextV ''p1'',
       a_appearance_type_id = TextV ''D3''\<rparr>,
      \<lparr>a_game_id = TextV ''18710504FW10'', a_team_id = TextV ''FW1'', a_person_id = TextV ''p1'',
       a_appearance_type_id = TextV ''O2''\<rparr>]"
  by (simp add: template_select_def template_branches_def eval_union eval_twice)

lemma number_from_nth:
  "i < length as \<Longrightarrow>
     stored_as (number_from n as ! i) (a_game_id (as ! i)) (a_team_id (as ! i))
       (a_person_id (as ! i)) (a_appearance_type_id (as ! i))"
proof (induction as arbitrary: n i)
  case Nil
  then show ?case by simp
next
  case (Cons a as)
  show ?case
  proof (cases i)
    case 0
    then show ?thesis by (simp add: stored_as_def)
  next
    case (Suc j)
    with Cons.prems have "j < length as" by simp
    from Cons.IH [OF this] Suc show ?thesis by simp
  qed
qed

subsection \<open>The team appearance statement\<close>

lemma insert_or_ignore_filter:
  assumes "\<And>x y. pk_conflict (key x) (key y) \<Longrightarrow> P x = P y"
  shows "filter P (insert_or_ignore key t rs) = insert_or_ignore key (filter P t) (filter P rs)"
proof (induction rs arbitrary: t)
  case Nil
  show ?case by simp
next
  case (Cons r rs)
  let ?hit = "\<exists>x \<in> set t. pk_conflict (key r) (key x)"
  let ?t = "if ?hit then t else t @ [r]"
  have step: "filter P (insert_or_ignore key t (r # rs)) = insert_or_ignore key (filter P ?t) (filter P rs)"
    using Cons.IH [of ?t] by simp
  show ?case
  proof (cases "P r")
    case True
    have "?hit \<longleftrightarrow> (\<exists>x \<in> set (filter P t). pk_conflict (key r) (key x))"
      using assms [of r] True by auto
    then have "filter P ?t = (if \<exists>x \<in> set (filter P t). pk_conflict (key r) (key x)
                              then filter P t else filter P t @ [r])"
      using True by auto
    with step True show ?thesis by simp
  next
    case False
    then have "filter P ?t = filter P t" by auto
    with step False show ?thesis by simp
  qed
qed

lemma two_element_list:
  assumes "distinct xs" "set xs = {a, b}" "a \<noteq> b"
  shows "xs = [a, b] \<or> xs = [b, a]"
proof -
  from assms have "length xs = 2"
    using distinct_card [of xs] by simp
  then obtain x y where xs: "xs = [x, y]"
    by (cases xs; cases "tl xs") auto
  with assms show ?thesis by auto
qed

lemma team_appearance_select_set:
  "set (team_appearance_select lg) = home_select ` set lg \<union> visiting_select ` set lg"
  by (simp add: team_appearance_select_def sql_union_set [OF inj_team_appearance_cols])

lemma team_appearance_select_distinct: "distinct (team_appearance_select lg)"
proof -
  have "distinct (map team_appearance_cols (team_appearance_select lg))"
    by (simp add: team_appearance_select_def sql_union_distinct)
  then show ?thesis by (simp add: distinct_map)
qed

lemma insert_team_appearance_result:
  assumes "insert_team_appearance d = Inr d'" "team_appearance d = Some t" "game_log d = Some lg"
  shows "team_appearance d' = Some (insert_or_ignore team_appearance_key t
           (map team_appearance_store (team_appearance_select (log_rows lg))))"
proof (cases "team d")
  case None
  with assms show ?thesis by (simp add: insert_team_appearance_def split: if_splits)
next
  case tm: (Some tm)
  show ?thesis
  proof (cases "game d")
    case None
    with assms tm show ?thesis by (simp add: insert_team_appearance_def split: if_splits)
  next
    case (Some gm)
    with assms tm show ?thesis
      by (auto simp: insert_team_appearance_def Let_def split: if_splits)
  qed
qed

lemma team_appearance_conflict_game:
  "pk_conflict (team_appearance_key x) (team_appearance_key y) \<Longrightarrow> ta_game_id x = ta_game_id y"
  by (simp add: pk_conflict_def team_appearance_key_def)

lemma store_home_fields:
  "ta_team_id (team_appearance_store (home_select r)) = text_affinity (h_name r)"
  "ta_game_id (team_appearance_store (home_select r)) = text_affinity (game_id r)"
  "ta_home (team_appearance_store (home_select r)) = IntV 1"
  "ta_league_id (team_appearance_store (home_select r)) = text_affinity (h_league r)"
  by (simp_all add: team_appearance_store_def home_select_def)

lemma store_visiting_fields:
  "ta_team_id (team_appearance_store (visiting_select r)) = text_affinity (v_name r)"
  "ta_game_id (team_appearance_store (visiting_select r)) = text_affinity (game_id r)"
  "ta_home (team_appearance_store (visiting_select r)) = IntV 0"
  "ta_league_id (team_appearance_store (visiting_select r)) = text_affinity (v_league r)"
  by (simp_all add: team_appearance_store_def visiting_select_def)

lemmas eval_team = team_appearance_select_def sql_union_def union_add_def team_appearance_cols_def
  home_select_def visiting_select_def team_appearance_store_def team_appearance_key_def
  fort_wayne_row_def blank_row_def

lemma same_team_select:
  "team_appearance_select [same_team_row] =
     [\<lparr>ta_team_id = TextV ''FW1'', ta_game_id = TextV ''18710504FW10'', ta_home = IntV 0,
       ta_league_id = Null, ta_score = IntV 0, ta_stats = []\<rparr>,
      \<lparr>ta_team_id = TextV ''FW1'', ta_game_id = TextV ''18710504FW10'', ta_home = IntV 1,
       ta_league_id = Null, ta_score = IntV 2, ta_stats = []\<rparr>]"
  by (simp add: eval_team same_team_row_def)

lemma other_league_select:
  "team_appearance_select [other_league_row] =
     [\<lparr>ta_team_id = TextV ''CL1'', ta_game_id = TextV ''18710504FW10'', ta_home = IntV 0,
       ta_league_id = Null, ta_score = IntV 0, ta_stats = []\<rparr>,
      \<lparr>ta_team_id = TextV ''FW1'', ta_game_id = TextV ''18710504FW10'', ta_home = IntV 1,
       ta_league_id = TextV ''XX'', ta_score = IntV 2, ta_stats = []\<rparr>]"
  by (simp add: eval_team other_league_row_def)

lemmas eval_team_store = insert_team_appearance_def team_store_def store_of_def references_def
  named_team_def fort_wayne_game_def added_def pk_conflict_def team_appearance_key_def
  team_appearance_store_def

lemma same_team_insert:
  "insert_team_appearance (team_store [same_team_row]) =
     Inr ((team_store [same_team_row])\<lparr>team_appearance := Some
       [\<lparr>ta_team_id = TextV ''FW1'', ta_game_id = TextV ''18710504FW10'', ta_home = IntV 0,
         ta_league_id = Null, ta_score = IntV 0, ta_stats = []\<rparr>]\<rparr>)"
  by (simp add: eval_team_store same_team_select)

lemma other_league_insert:
  "insert_team_appearance (team_store [other_league_row]) =
     Inr ((team_store [other_league_row])\<lparr>team_appearance := Some
       [\<lparr>ta_team_id = TextV ''CL1'', ta_game_id = TextV ''18710504FW10'', ta_home = IntV 0,
         ta_league_id = Null, ta_score = IntV 0, ta_stats = []\<rparr>,
        \<lparr>ta_team_id = TextV ''FW1'', ta_game_id = TextV ''18710504FW10'', ta_home = IntV 1,
         ta_league_id = TextV ''XX'', ta_score = IntV 2, ta_stats = []\<rparr>]\<rparr>)"
  by (simp add: eval_team_store other_league_select)

subsection \<open>Runs of the whole script\<close>

lemma run_all_append:
  "run_all (xs @ ys) d = (case run_all xs d of Inl e \<Rightarrow> Inl e | Inr d' \<Rightarrow> run_all ys d')"
  by (induction xs arbitrary: d) (auto split: sum.splits)

lemma rerun_prefix:
  "\<exists>d'. run_all [load_tables inp, try_alter_game_log, update_game_id,
                   create_person, insert_person, create_park, insert_park,
                   create_league, insert_league] d = Inr d'
        \<and> appearance_type d' = appearance_type d
        \<and> person_appearance d' = person_appearance d"
  by (simp add: load_tables_def try_alter_game_log_def alter_game_log_def update_game_id_def
        create_person_def insert_person_def create_park_def insert_park_def
        create_league_def insert_league_def split: option.split)

lemma upt_1_10: "[1..<10] = [1, 2, 3, 4, 5, 6, 7, 8, 9]"
  by (simp add: upt_rec)

lemmas eval_statements =
  load_tables_def try_alter_game_log_def alter_game_log_def update_game_id_def update_row_def
  create_person_def insert_person_def person_of_code_def person_key_def
  create_park_def insert_park_def park_of_code_def park_key_def
  create_league_def insert_league_def league_key_def
  drop_appearance_type_def create_appearance_type_def append_appearance_type_def
  appearance_type_of_csv_def appearance_type_key_def
  create_team_def insert_team_def team_of_code_def team_key_def
  create_game_def insert_game_def game_key_def
  create_team_appearance_def insert_team_appearance_def
  drop_person_appearance_def create_person_appearance_def insert_c2_def insert_template_def
  insert_person_appearance_def next_rowid_def
  drop_game_log_def drop_park_codes_def drop_team_codes_def drop_person_codes_def
  pk_conflict_def references_def added_def

lemma manager_row_derived: "derived_game_id manager_row = TextV ''18710504FW10''"
  by (simp add: derived_game_id_def manager_row_def fort_wayne_row_def blank_row_def int_text_def
        nat_text.simps digit_char_def)

lemma first_run_import:
  "run_all [load_tables first_inputs, try_alter_game_log, update_game_id] empty_db =
     Inr (empty_db\<lparr>game_log := Some \<lparr>has_game_id = True,
            log_rows = [manager_row\<lparr>game_id := TextV ''18710504FW10''\<rparr>]\<rparr>,
          person_codes := Some (in_person_codes first_inputs),
          team_codes := Some (in_team_codes first_inputs),
          park_codes := Some (in_park_codes first_inputs)\<rparr>)"
  by (simp add: load_tables_def try_alter_game_log_def alter_game_log_def update_game_id_def
        update_row_def first_inputs_def empty_db_def manager_row_derived)

lemma manager_selects:
  "team_appearance_select [manager_row\<lparr>game_id := TextV ''18710504FW10''\<rparr>] =
     [\<lparr>ta_team_id = TextV ''CL1'', ta_game_id = TextV ''18710504FW10'', ta_home = IntV 0,
       ta_league_id = Null, ta_score = IntV 0, ta_stats = []\<rparr>,
      \<lparr>ta_team_id = TextV ''FW1'', ta_game_id = TextV ''18710504FW10'', ta_home = IntV 1,
       ta_league_id = Null, ta_score = IntV 2, ta_stats = []\<rparr>]"
  "c2_select [manager_row\<lparr>game_id := TextV ''18710504FW10''\<rparr>] =
     [\<lparr>a_game_id = TextV ''18710504FW10'', a_team_id = TextV ''FW1'', a_person_id = TextV ''m1'',
       a_appearance_type_id = TextV ''MM''\<rparr>]"
  "template_select s num [manager_row\<lparr>game_id := TextV ''18710504FW10''\<rparr>] = []"
  "game_of_log (manager_row\<lparr>game_id := TextV ''18710504FW10''\<rparr>) = fort_wayne_game"
  by (simp_all add: eval_team c2_select_def c2_branches_def template_select_def
        template_branches_def eval_union manager_row_def game_of_log_def fort_wayne_game_def
        day_of_def sql_eq_def int_text_def nat_text.simps digit_char_def)

lemma first_run: "migrate first_inputs empty_db = Inr first_store"
  unfolding migrate_def template_loop_def upt_1_10
  by (simp add: eval_statements manager_selects manager_row_derived first_inputs_def
        first_store_def empty_db_def
        named_person_def named_team_def named_type_def league_values_def
        team_appearance_store_def team_appearance_key_def fort_wayne_game_def)

lemma drop_appearance_type_referenced:
  assumes "appearance_type d = Some ty" "person_appearance d = Some pa" "x \<in> set pa"
    "pa_appearance_type_id x \<noteq> Null"
    "pa_appearance_type_id x \<in> set (map at_appearance_type_id ty)"
  shows "drop_appearance_type d = Inl ForeignKeyFailed"
  using assms by (auto simp: drop_appearance_type_def)

lemma migrate_stops_at_drop:
  assumes "appearance_type d = Some ty" "person_appearance d = Some pa" "x \<in> set pa"
    "pa_appearance_type_id x \<noteq> Null"
    "pa_appearance_type_id x \<in> set (map at_appearance_type_id ty)"
  shows "migrate inp d = Inl ForeignKeyFailed"
proof -
  let ?prefix = "[load_tables inp, try_alter_game_log, update_game_id,
                   create_person, insert_person, create_park, insert_park,
                   create_league, insert_league]"
  from rerun_prefix [of inp d] obtain d' where
    d': "run_all ?prefix d = Inr d'" "appearance_type d' = appearance_type d"
        "person_appearance d' = person_appearance d" by blast
  with assms have "drop_appearance_type d' = Inl ForeignKeyFailed"
    by (intro drop_appearance_type_referenced [of d' ty pa x]) simp_all
  then have "run_all (drop_appearance_type # rest) d' = Inl ForeignKeyFailed" for rest
    by simp
  moreover have "migrate inp d = (case run_all ?prefix d of Inl e \<Rightarrow> Inl e
       | Inr d' \<Rightarrow> run_all (drop_appearance_type #
           ([create_appearance_type, append_appearance_type (in_appearance_type inp),
             create_team, insert_team, create_game, insert_game,
             create_team_appearance, insert_team_appearance,
             drop_person_appearance, create_person_appearance, insert_c2]
            @ template_loop
            @ [drop_game_log, drop_park_codes, drop_team_codes, drop_person_codes])) d')"
    unfolding migrate_def run_all_append [symmetric] by simp
  ultimately show ?thesis using d'(1) by simp
qed

lemma insert_or_ignore_all_present:
  "\<forall>r \<in> set rs. \<exists>x \<in> set t. pk_conflict (key r) (key x) \<Longrightarrow> insert_or_ignore key t rs = t"
  by (induction rs) auto

lemma insert_or_ignore_again:
  assumes "\<forall>r \<in> set rs. Null \<notin> set (key r)"
  shows "insert_or_ignore key (insert_or_ignore key t rs) rs = insert_or_ignore key t rs"
proof (rule insert_or_ignore_all_present, rule ballI)
  fix r assume r: "r \<in> set rs"
  with assms have nn: "Null \<notin> set (key r)" by blast
  from insert_or_ignore_present [of r rs key t] r nn
  obtain x where "x \<in> set (insert_or_ignore key t rs)" "key x = key r" by blast
  with nn show "\<exists>x \<in> set (insert_or_ignore key t rs). pk_conflict (key r) (key x)"
    unfolding pk_conflict_def by metis
qed

lemma added_same [simp]: "added t t = []"
  by (simp add: added_def)

lemma create_existing:
  "person d \<noteq> None \<Longrightarrow> create_person d = Inr d"
  "park d \<noteq> None \<Longrightarrow> create_park d = Inr d"
  "league d \<noteq> None \<Longrightarrow> create_league d = Inr d"
  "team d \<noteq> None \<Longrightarrow> create_team d = Inr d"
  "game d \<noteq> None \<Longrightarrow> create_game d = Inr d"
  "team_appearance d \<noteq> None \<Longrightarrow> create_team_appearance d = Inr d"
  by (auto simp: create_person_def create_park_def create_league_def create_team_def
        create_game_def create_team_appearance_def)

lemma insert_person_again:
  assumes "insert_person d = Inr d'" "person_codes d = Some cs"
    "\<forall>c \<in> set cs. pc_id c \<noteq> Null"
  shows "insert_person d' = Inr d'"
proof (cases "person d")
  case None
  with assms show ?thesis by (simp add: insert_person_def)
next
  case (Some t)
  let ?rs = "map person_of_code cs"
  from assms(3) have keys: "\<forall>r \<in> set ?rs. Null \<notin> set (person_key r)"
    by (simp add: person_key_def person_of_code_def)
  from assms(1,2) Some have d': "d' = d\<lparr>person := Some (insert_or_ignore person_key t ?rs)\<rparr>"
    by (simp add: insert_person_def)
  show ?thesis
    unfolding d' using assms(2) insert_or_ignore_again [OF keys, of t]
    by (simp add: insert_person_def)
qed

lemma insert_park_again:
  assumes "insert_park d = Inr d'" "park_codes d = Some cs"
    "\<forall>c \<in> set cs. kc_park_id c \<noteq> Null"
  shows "insert_park d' = Inr d'"
proof (cases "park d")
  case None
  with assms show ?thesis by (simp add: insert_park_def)
next
  case (Some t)
  let ?rs = "map park_of_code cs"
  from assms(3) have keys: "\<forall>r \<in> set ?rs. Null \<notin> set (park_key r)"
    by (simp add: park_key_def park_of_code_def)
  from assms(1,2) Some have d': "d' = d\<lparr>park := Some (insert_or_ignore park_key t ?rs)\<rparr>"
    by (simp add: insert_park_def)
  show ?thesis
    unfolding d' using assms(2) insert_or_ignore_again [OF keys, of t]
    by (simp add: insert_park_def)
qed

lemma insert_league_again:
  assumes "insert_league d = Inr d'"
  shows "insert_league d' = Inr d'"
proof (cases "league d")
  case None
  with assms show ?thesis by (simp add: insert_league_def)
next
  case (Some t)
  have keys: "\<forall>r \<in> set league_values. Null \<notin> set (league_key r)"
    by (simp add: league_key_def league_values_def)
  from assms Some have d': "d' = d\<lparr>league := Some (insert_or_ignore league_key t league_values)\<rparr>"
    by (simp add: insert_league_def)
  show ?thesis
    unfolding d' using insert_or_ignore_again [OF keys, of t]
    by (simp add: insert_league_def)
qed

lemma insert_team_again:
  assumes "insert_team d = Inr d'" "team_codes d = Some cs"
    "\<forall>c \<in> set cs. tc_team_id c \<noteq> Null"
  shows "insert_team d' = Inr d'"
proof (cases "team d")
  case None
  with assms show ?thesis by (simp add: insert_team_def)
next
  case t: (Some t)
  show ?thesis
  proof (cases "league d")
    case None
    with assms t show ?thesis by (simp add: insert_team_def)
  next
    case (Some lg)
    let ?rs = "map team_of_code cs"
    from assms(3) have keys: "\<forall>r \<in> set ?rs. Null \<notin> set (team_key r)"
      by (simp add: team_key_def team_of_code_def)
    from assms(1,2) t Some have d': "d' = d\<lparr>team := Some (insert_or_ignore team_key t ?rs)\<rparr>"
      by (simp add: insert_team_def Let_def split: if_splits)
    show ?thesis
      unfolding d' using assms(2) Some insert_or_ignore_again [OF keys, of t]
      by (simp add: insert_team_def)
  qed
qed

lemma insert_game_again:
  assumes "insert_game d = Inr d'" "game_log d = Some lg"
    "\<forall>r \<in> set (log_rows lg). game_id r \<noteq> Null"
  shows "insert_game d' = Inr d'"
proof (cases "game d")
  case None
  with assms show ?thesis by (simp add: insert_game_def)
next
  case t: (Some t)
  show ?thesis
  proof (cases "park d")
    case None
    with assms t show ?thesis by (simp add: insert_game_def split: if_splits)
  next
    case (Some pk)
    let ?rs = "map game_of_log (log_rows lg)"
    from assms(3) have keys: "\<forall>r \<in> set ?rs. Null \<notin> set (game_key r)"
      by (simp add: game_key_def game_of_log_def)
    from assms(1,2) t Some have col: "has_game_id lg"
      and d': "d' = d\<lparr>game := Some (insert_or_ignore game_key t ?rs)\<rparr>"
      by (simp_all add: insert_game_def Let_def split: if_splits)
    show ?thesis
      unfolding d' using assms(2) Some col insert_or_ignore_again [OF keys, of t]
      by (simp add: insert_game_def)
  qed
qed

lemma insert_team_appearance_again:
  assumes "insert_team_appearance d = Inr d'" "game_log d = Some lg"
    "\<forall>r \<in> set (log_rows lg). game_id r \<noteq> Null \<and> h_name r \<noteq> Null \<and> v_name r \<noteq> Null"
  shows "insert_team_appearance d' = Inr d'"
proof (cases "team_appearance d")
  case None
  with assms show ?thesis by (simp add: insert_team_appearance_def)
next
  case t: (Some t)
  show ?thesis
  proof (cases "team d")
    case None
    with assms t show ?thesis by (simp add: insert_team_appearance_def split: if_splits)
  next
    case tm: (Some tm)
    show ?thesis
    proof (cases "game d")
      case None
      with assms t tm show ?thesis by (simp add: insert_team_appearance_def split: if_splits)
    next
      case (Some gm)
      let ?rs = "map team_appearance_store (team_appearance_select (log_rows lg))"
      have keys: "\<forall>x \<in> set ?rs. Null \<notin> set (team_appearance_key x)"
        using assms(3)
        by (auto simp: team_appearance_select_set team_appearance_key_def store_home_fields
              store_visiting_fields)
      from assms(1,2) t tm Some have col: "has_game_id lg"
        and d': "d' = d\<lparr>team_appearance := Some (insert_or_ignore team_appearance_key t ?rs)\<rparr>"
        by (simp_all add: insert_team_appearance_def Let_def split: if_splits)
      show ?thesis
        unfolding d' using assms(2) tm Some col insert_or_ignore_again [OF keys, of t]
        by (simp add: insert_team_appearance_def)
    qed
  qed
qed

section \<open>Properties of the migration\<close>

subsection \<open>Deriving \<open>game_id\<close>\<close>

text \<open>
  Claim C10. The \<open>UPDATE\<close> of \<open>game_id\<close> changes nothing but the table \<open>game_log\<close>, keeps
  the number and order of its rows, and leaves every row whose \<open>game_id\<close> is not NULL as it
  was, in all its columns; a row whose \<open>game_id\<close> is NULL gets the derived id and keeps its
  other columns.
\<close>

theorem update_game_id_frame:
  assumes "update_game_id d = Inr d'" and "game_log d = Some t"
  shows "\<exists>t'. d' = d\<lparr>game_log := Some t'\<rparr>
           \<and> length (log_rows t') = length (log_rows t)
           \<and> (\<forall>i < length (log_rows t).
                 if game_id (log_rows t ! i) = Null
                 then log_rows t' ! i = (log_rows t ! i)\<lparr>game_id := derived_game_id (log_rows t ! i)\<rparr>
                 else log_rows t' ! i = log_rows t ! i)"
  using assms
  by (auto simp: update_game_id_def update_row_def split: if_splits)

theorem update_game_id_frame_witness:
  "\<exists>d' t'. update_game_id (log_db True [fort_wayne_row\<lparr>game_id := TextV ''kept''\<rparr>]) = Inr d'
      \<and> game_log d' = Some t'
      \<and> log_rows t' = [fort_wayne_row\<lparr>game_id := TextV ''kept''\<rparr>]"
proof -
  let ?d = "log_db True [fort_wayne_row\<lparr>game_id := TextV ''kept''\<rparr>]"
  let ?t = "\<lparr>has_game_id = True, log_rows = [fort_wayne_row\<lparr>game_id := TextV ''kept''\<rparr>]\<rparr>"
  obtain d' where run: "update_game_id ?d = Inr d'"
    by (simp add: update_game_id_def log_db_def)
  have tab: "game_log ?d = Some ?t"
    by (simp add: log_db_def)
  from update_game_id_frame [OF run tab] obtain t' where
    t': "d' = ?d\<lparr>game_log := Some t'\<rparr>" "length (log_rows t') = 1"
        "log_rows t' ! 0 = fort_wayne_row\<lparr>game_id := TextV ''kept''\<rparr>"
    by (auto simp: fort_wayne_row_def blank_row_def)
  then have "log_rows t' = [fort_wayne_row\<lparr>game_id := TextV ''kept''\<rparr>]"
    by (cases "log_rows t'") auto
  with run t' show ?thesis by auto
qed

text \<open>
  Claim C2. The handler around \<open>ALTER TABLE game_log ADD COLUMN game_id\<close> is a bare
  \<open>except: pass\<close>. On a store without the table \<open>game_log\<close> the statement fails with
  "no such table", not with "duplicate column", and the handler discards that failure
  as well: the cell ends without an error and leaves the store as it was.
\<close>

theorem try_alter_game_log_discards_missing_table:
  "alter_game_log empty_db = Inl (NoSuchTable ''game_log'')
   \<and> try_alter_game_log empty_db = Inr empty_db"
  by (simp add: alter_game_log_def try_alter_game_log_def empty_db_def)



subsection \<open>The game table\<close>



subsection \<open>The person appearance table\<close>



text \<open>
  Claim C8, amended. Of the rows that \<open>c2\<close> or a statement of the template adds, one tagged
  as an umpire has a NULL \<open>team_id\<close>; every other one carries \<open>h_name\<close> or \<open>v_name\<close> of a row
  of \<open>game_log\<close>, so its \<open>team_id\<close> is not NULL when no row of \<open>game_log\<close> has a NULL
  \<open>h_name\<close> or \<open>v_name\<close>.
\<close>

theorem appearance_team_by_role:
  assumes "sel = c2_select \<or> sel = template_select s num"
      and "insert_person_appearance sel d = Inr d'"
      and "person_appearance d = Some t"
  shows "\<exists>lg t'. game_log d = Some lg \<and> person_appearance d' = Some t'
     \<and> (\<forall>x \<in> set (added t t').
           (pa_appearance_type_id x \<in> set umpire_tags \<longrightarrow> pa_team_id x = Null)
         \<and> (pa_appearance_type_id x \<notin> set umpire_tags \<longrightarrow>
              (\<exists>r \<in> set (log_rows lg). pa_team_id x = text_affinity (h_name r)
                                       \<or> pa_team_id x = text_affinity (v_name r)))
         \<and> (pa_appearance_type_id x \<notin> set umpire_tags
              \<and> (\<forall>r \<in> set (log_rows lg). h_name r \<noteq> Null \<and> v_name r \<noteq> Null)
              \<longrightarrow> pa_team_id x \<noteq> Null))"
proof -
  from insert_person_appearance_added [OF assms(2,3)]
  obtain lg t' where lg: "game_log d = Some lg" and t': "person_appearance d' = Some t'"
    and new: "added t t' = number_from (next_rowid t) (sel (log_rows lg))" by blast
  have sel: "(a_appearance_type_id a \<in> set umpire_tags \<longrightarrow> a_team_id a = Null)
       \<and> (a_appearance_type_id a \<notin> set umpire_tags \<longrightarrow>
            (\<exists>r \<in> set (log_rows lg). a_team_id a = h_name r \<or> a_team_id a = v_name r))"
    if "a \<in> set (sel (log_rows lg))" for a
    using assms(1) that c2_select_team [of a "log_rows lg"]
      template_select_team [of a s num "log_rows lg"] by blast
  have "(pa_appearance_type_id x \<in> set umpire_tags \<longrightarrow> pa_team_id x = Null)
         \<and> (pa_appearance_type_id x \<notin> set umpire_tags \<longrightarrow>
              (\<exists>r \<in> set (log_rows lg). pa_team_id x = text_affinity (h_name r)
                                       \<or> pa_team_id x = text_affinity (v_name r)))
         \<and> (pa_appearance_type_id x \<notin> set umpire_tags
              \<and> (\<forall>r \<in> set (log_rows lg). h_name r \<noteq> Null \<and> v_name r \<noteq> Null)
              \<longrightarrow> pa_team_id x \<noteq> Null)"
    if x: "x \<in> set (added t t')" for x
  proof -
    from x new number_from_fields [of x "next_rowid t" "sel (log_rows lg)"]
    obtain a where a: "a \<in> set (sel (log_rows lg))"
      "pa_team_id x = text_affinity (a_team_id a)"
      "pa_appearance_type_id x = a_appearance_type_id a" by auto
    from sel [OF a(1)] a(2,3) show ?thesis by auto
  qed
  with lg t' show ?thesis by blast
qed

text \<open>
  Claim C8 as stated fails on a row of \<open>game_log\<close> without a home team name: its home
  manager is stored with the tag MM and a NULL \<open>team_id\<close>.
\<close>

theorem manager_without_team_counterexample:
  "insert_c2 (store_of [no_home_row] [''m1''] [''MM'']) =
     Inr ((store_of [no_home_row] [''m1''] [''MM''])
       \<lparr>person_appearance := Some
         [\<lparr>pa_appearance_id = 1, pa_person_id = TextV ''m1'', pa_team_id = Null,
           pa_game_id = TextV ''18710504FW10'', pa_appearance_type_id = TextV ''MM''\<rparr>]\<rparr>)"
  by (simp add: insert_c2_def insert_person_appearance_def store_of_def no_home_c2_select
        next_rowid_def references_def named_person_def named_team_def named_type_def
        fort_wayne_game_def)

theorem appearance_team_by_role_witness:
  "\<exists>d' x. insert_person_appearance c2_select
             (store_of [award_row] [''p1'', ''p2''] [''AWP'', ''ALP'']) = Inr d'
      \<and> person_appearance d' = Some [x,
           \<lparr>pa_appearance_id = 2, pa_person_id = TextV ''p1'', pa_team_id = TextV ''FW1'',
            pa_game_id = TextV ''18710504FW10'', pa_appearance_type_id = TextV ''AWP''\<rparr>]
      \<and> TextV ''AWP'' \<notin> set umpire_tags \<and> TextV ''FW1'' \<noteq> Null"
proof -
  let ?d = "store_of [award_row] [''p1'', ''p2''] [''AWP'', ''ALP'']"
  let ?y = "\<lparr>pa_appearance_id = 2, pa_person_id = TextV ''p1'', pa_team_id = TextV ''FW1'',
            pa_game_id = TextV ''18710504FW10'', pa_appearance_type_id = TextV ''AWP''\<rparr>"
  obtain d' x where run: "insert_person_appearance c2_select ?d = Inr d'"
    and rows: "person_appearance d' = Some [x, ?y]"
    using award_insert_c2 by (simp add: insert_c2_def)
  have tab: "person_appearance ?d = Some []"
    by (simp add: store_of_def)
  have which: "c2_select = c2_select \<or> c2_select = template_select H 1" by simp
  from appearance_team_by_role [OF which run tab] obtain lg t' where
    lg: "game_log ?d = Some lg" and t': "person_appearance d' = Some t'"
    and all: "\<forall>x \<in> set (added [] t').
           (pa_appearance_type_id x \<notin> set umpire_tags
              \<and> (\<forall>r \<in> set (log_rows lg). h_name r \<noteq> Null \<and> v_name r \<noteq> Null)
              \<longrightarrow> pa_team_id x \<noteq> Null)"
    by blast
  from lg have "log_rows lg = [award_row]" by (auto simp: store_of_def)
  moreover from t' rows have "?y \<in> set (added [] t')" by (auto simp: added_def)
  ultimately have "TextV ''AWP'' \<notin> set umpire_tags \<longrightarrow> TextV ''FW1'' \<noteq> Null"
    using all by (auto simp: award_row_def fort_wayne_row_def blank_row_def)
  moreover have "TextV ''AWP'' \<notin> set umpire_tags" by (simp add: umpire_tags_def)
  ultimately show ?thesis using run rows by blast
qed




text \<open>
  Claim C4 as stated fails: a player entered in the batting slots 1 and 2 of the home
  side with the defensive position 3 is stored twice with the tag D3, by the statements
  of slot 1 and of slot 2.
\<close>

theorem duplicate_tuple_counterexample:
  "\<exists>d' t'. run_all [insert_template H 1, insert_template H 2]
       (store_of [twice_row] [''p1''] [''O1'', ''O2'', ''D3'']) = Inr d'
     \<and> person_appearance d' = Some t'
     \<and> t' =
         [\<lparr>pa_appearance_id = 1, pa_person_id = TextV ''p1'', pa_team_id = TextV ''FW1'',
           pa_game_id = TextV ''18710504FW10'', pa_appearance_type_id = TextV ''D3''\<rparr>,
          \<lparr>pa_appearance_id = 2, pa_person_id = TextV ''p1'', pa_team_id = TextV ''FW1'',
           pa_game_id = TextV ''18710504FW10'', pa_appearance_type_id = TextV ''O1''\<rparr>,
          \<lparr>pa_appearance_id = 3, pa_person_id = TextV ''p1'', pa_team_id = TextV ''FW1'',
           pa_game_id = TextV ''18710504FW10'', pa_appearance_type_id = TextV ''D3''\<rparr>,
          \<lparr>pa_appearance_id = 4, pa_person_id = TextV ''p1'', pa_team_id = TextV ''FW1'',
           pa_game_id = TextV ''18710504FW10'', pa_appearance_type_id = TextV ''O2''\<rparr>]
     \<and> \<not> distinct (map (\<lambda>x. (pa_person_id x, pa_team_id x, pa_game_id x,
                                pa_appearance_type_id x)) t')"
proof -
  let ?t = "[\<lparr>pa_appearance_id = 1, pa_person_id = TextV ''p1'', pa_team_id = TextV ''FW1'',
           pa_game_id = TextV ''18710504FW10'', pa_appearance_type_id = TextV ''D3''\<rparr>,
          \<lparr>pa_appearance_id = 2, pa_person_id = TextV ''p1'', pa_team_id = TextV ''FW1'',
           pa_game_id = TextV ''18710504FW10'', pa_appearance_type_id = TextV ''O1''\<rparr>,
          \<lparr>pa_appearance_id = 3, pa_person_id = TextV ''p1'', pa_team_id = TextV ''FW1'',
           pa_game_id = TextV ''18710504FW10'', pa_appearance_type_id = TextV ''D3''\<rparr>,
          \<lparr>pa_appearance_id = 4, pa_person_id = TextV ''p1'', pa_team_id = TextV ''FW1'',
           pa_game_id = TextV ''18710504FW10'', pa_appearance_type_id = TextV ''O2''\<rparr>]"
  let ?d = "store_of [twice_row] [''p1''] [''O1'', ''O2'', ''D3'']"
  have run: "run_all [insert_template H 1, insert_template H 2] ?d
               = Inr (?d\<lparr>person_appearance := Some ?t\<rparr>)"
    by (simp del: One_nat_def add: eval_store twice_template_select_1 twice_template_select_2)
  have rows: "person_appearance (?d\<lparr>person_appearance := Some ?t\<rparr>) = Some ?t"
    by simp
  have twice: "\<not> distinct (map (\<lambda>x. (pa_person_id x, pa_team_id x, pa_game_id x,
                                pa_appearance_type_id x)) ?t)"
    by simp
  from run rows twice show ?thesis by blast
qed

text \<open>
  Claim C4, amended. Each statement stores, after the rows already in the table, exactly
  the rows its \<open>SELECT\<close> yields, in order and with nothing checked against the rows stored
  before; what keeps duplicates out is the \<open>UNION\<close>, which makes the tuples selected by
  one statement pairwise distinct.
\<close>

theorem statement_stores_its_select:
  assumes "sel = c2_select \<or> sel = template_select s num"
      and "insert_person_appearance sel d = Inr d'"
      and "person_appearance d = Some t"
  shows "\<exists>lg t'. game_log d = Some lg \<and> person_appearance d' = Some t'
     \<and> t' = t @ added t t'
     \<and> length (added t t') = length (sel (log_rows lg))
     \<and> (\<forall>i < length (sel (log_rows lg)).
           stored_as (added t t' ! i) (a_game_id (sel (log_rows lg) ! i))
             (a_team_id (sel (log_rows lg) ! i)) (a_person_id (sel (log_rows lg) ! i))
             (a_appearance_type_id (sel (log_rows lg) ! i)))
     \<and> distinct (map appearance_cols (sel (log_rows lg)))"
proof -
  from insert_person_appearance_result [OF assms(2,3)]
  obtain lg where lg: "game_log d = Some lg"
    and t': "person_appearance d' = Some (t @ number_from (next_rowid t) (sel (log_rows lg)))"
    by blast
  let ?new = "number_from (next_rowid t) (sel (log_rows lg))"
  have new: "added t (t @ ?new) = ?new" by (rule added_append)
  have "distinct (map appearance_cols (sel (log_rows lg)))"
    using assms(1) by (auto simp: c2_select_def template_select_def sql_union_distinct)
  with lg t' new show ?thesis
    by (simp add: number_from_length number_from_nth)
qed

theorem statement_stores_its_select_witness:
  "\<exists>d' t'. insert_person_appearance (template_select H 1)
               (store_of [twice_row] [''p1''] [''O1'', ''O2'', ''D3'']) = Inr d'
      \<and> person_appearance d' = Some t'
      \<and> length t' = 2
      \<and> distinct (map appearance_cols (template_select H 1 [twice_row]))"
proof -
  let ?d = "store_of [twice_row] [''p1''] [''O1'', ''O2'', ''D3'']"
  have "\<exists>d'. insert_person_appearance (template_select H 1) ?d = Inr d'"
    by (simp del: One_nat_def add: insert_person_appearance_def store_of_def
          twice_template_select_1 next_rowid_def references_def named_person_def named_team_def
          named_type_def fort_wayne_game_def)
  then obtain d' where run: "insert_person_appearance (template_select H 1) ?d = Inr d'" ..
  have tab: "person_appearance ?d = Some []"
    by (simp add: store_of_def)
  have which: "template_select H 1 = c2_select \<or> template_select H 1 = template_select H 1"
    by simp
  from statement_stores_its_select [OF which run tab] obtain lg t' where
    lg: "game_log ?d = Some lg" and t': "person_appearance d' = Some t'"
    and app: "t' = [] @ added [] t'"
    and len: "length (added [] t') = length (template_select H 1 (log_rows lg))"
    and dis: "distinct (map appearance_cols (template_select H 1 (log_rows lg)))"
    by blast
  from lg have rows: "log_rows lg = [twice_row]" by (auto simp: store_of_def)
  from len rows have "length t' = 2"
    by (simp del: One_nat_def add: added_def twice_template_select_1)
  with run t' dis rows show ?thesis by auto
qed

subsection \<open>The team appearance table\<close>

text \<open>
  Claim C7, amended. When the insert into \<open>team_appearance\<close> has succeeded, a row of
  \<open>game_log\<close> whose \<open>game_id\<close> stands in no other row of \<open>game_log\<close> and in no row stored
  before, and whose two team names differ, has exactly two rows of \<open>team_appearance\<close> under
  its \<open>game_id\<close>: one with \<open>home\<close> = 1 for \<open>h_name\<close> and one with \<open>home\<close> = 0 for \<open>v_name\<close>, each
  with the league id that \<open>game_log\<close> gives for its side.
\<close>

theorem team_appearance_two_rows:
  assumes insert: "insert_team_appearance d = Inr d'"
      and table: "team_appearance d = Some t"
      and log: "game_log d = Some lg"
      and row: "r \<in> set (log_rows lg)"
      and fresh: "\<forall>x \<in> set t. ta_game_id x \<noteq> text_affinity (game_id r)"
      and once: "\<forall>r' \<in> set (log_rows lg).
                   text_affinity (game_id r') = text_affinity (game_id r) \<longrightarrow> r' = r"
      and teams: "text_affinity (h_name r) \<noteq> text_affinity (v_name r)"
  shows "\<exists>t' x y. team_appearance d' = Some t'
     \<and> (filter (\<lambda>z. ta_game_id z = text_affinity (game_id r)) t' = [x, y]
        \<or> filter (\<lambda>z. ta_game_id z = text_affinity (game_id r)) t' = [y, x])
     \<and> x = team_appearance_store (home_select r)
     \<and> ta_home x = IntV 1 \<and> ta_team_id x = text_affinity (h_name r)
     \<and> ta_league_id x = text_affinity (h_league r)
     \<and> y = team_appearance_store (visiting_select r)
     \<and> ta_home y = IntV 0 \<and> ta_team_id y = text_affinity (v_name r)
     \<and> ta_league_id y = text_affinity (v_league r)"
proof -
  let ?g = "text_affinity (game_id r)"
  let ?P = "\<lambda>z. ta_game_id z = ?g"
  let ?U = "team_appearance_select (log_rows lg)"
  let ?x = "team_appearance_store (home_select r)"
  let ?y = "team_appearance_store (visiting_select r)"
  let ?Q = "\<lambda>u. ?P (team_appearance_store u)"
  have t': "team_appearance d' = Some (insert_or_ignore team_appearance_key t
              (map team_appearance_store ?U))"
    using insert table log by (rule insert_team_appearance_result)
  have "set (filter ?Q ?U) = {home_select r, visiting_select r}"
  proof
    show "set (filter ?Q ?U) \<subseteq> {home_select r, visiting_select r}"
    proof
      fix u assume "u \<in> set (filter ?Q ?U)"
      then have u: "u \<in> home_select ` set (log_rows lg) \<union> visiting_select ` set (log_rows lg)"
        and q: "?Q u" by (simp_all add: team_appearance_select_set)
      from u obtain r' where r': "r' \<in> set (log_rows lg)" "u = home_select r' \<or> u = visiting_select r'"
        by auto
      with q have "text_affinity (game_id r') = ?g"
        by (auto simp: store_home_fields store_visiting_fields)
      with once r'(1) have "r' = r" by blast
      with r'(2) show "u \<in> {home_select r, visiting_select r}" by auto
    qed
    show "{home_select r, visiting_select r} \<subseteq> set (filter ?Q ?U)"
      using row by (auto simp: team_appearance_select_set store_home_fields store_visiting_fields)
  qed
  moreover have "distinct (filter ?Q ?U)"
    using team_appearance_select_distinct by simp
  moreover have "home_select r \<noteq> visiting_select r"
  proof
    assume "home_select r = visiting_select r"
    then have "ta_home (home_select r) = ta_home (visiting_select r)" by simp
    then show False by (simp add: home_select_def visiting_select_def)
  qed
  ultimately have "filter ?Q ?U = [home_select r, visiting_select r]
                 \<or> filter ?Q ?U = [visiting_select r, home_select r]"
    by (intro two_element_list)
  then have sel: "filter ?P (map team_appearance_store ?U) = [?x, ?y]
                \<or> filter ?P (map team_appearance_store ?U) = [?y, ?x]"
    by (auto simp: filter_map comp_def)
  have old: "filter ?P t = []"
    using fresh by (auto simp: filter_empty_conv)
  have split: "filter ?P (insert_or_ignore team_appearance_key t (map team_appearance_store ?U))
        = insert_or_ignore team_appearance_key [] (filter ?P (map team_appearance_store ?U))"
    using insert_or_ignore_filter [of team_appearance_key ?P t "map team_appearance_store ?U"]
      team_appearance_conflict_game old by simp
  have apart: "\<not> pk_conflict (team_appearance_key ?x) (team_appearance_key ?y)"
              "\<not> pk_conflict (team_appearance_key ?y) (team_appearance_key ?x)"
    using teams by (auto simp: pk_conflict_def team_appearance_key_def store_home_fields
        store_visiting_fields)
  have "filter ?P (insert_or_ignore team_appearance_key t (map team_appearance_store ?U)) = [?x, ?y]
      \<or> filter ?P (insert_or_ignore team_appearance_key t (map team_appearance_store ?U)) = [?y, ?x]"
    unfolding split using sel apart by auto
  with t' show ?thesis
    by (simp add: store_home_fields store_visiting_fields)
qed

text \<open>
  Claim C7 as stated fails. A game whose rows name the same team on both sides keeps one
  row of \<open>team_appearance\<close>, the second colliding on the primary key \<open>(team_id, game_id)\<close>;
  and a league id XX that is no row of \<open>league\<close> is stored, no foreign key being declared
  on \<open>league_id\<close>.
\<close>

theorem team_appearance_counterexample:
  "(\<exists>d' t'. insert_team_appearance (team_store [same_team_row]) = Inr d'
      \<and> game d' = Some [fort_wayne_game]
      \<and> team_appearance d' = Some t'
      \<and> length (filter (\<lambda>x. ta_game_id x = g_game_id fort_wayne_game) t') = 1)
   \<and> (\<exists>d' t' x. insert_team_appearance (team_store [other_league_row]) = Inr d'
      \<and> team_appearance d' = Some t' \<and> league d' = Some league_values
      \<and> x \<in> set t' \<and> ta_league_id x = TextV ''XX''
      \<and> TextV ''XX'' \<notin> set (map l_league_id league_values))"
proof -
  have "\<exists>d' t'. insert_team_appearance (team_store [same_team_row]) = Inr d'
      \<and> game d' = Some [fort_wayne_game]
      \<and> team_appearance d' = Some t'
      \<and> length (filter (\<lambda>x. ta_game_id x = g_game_id fort_wayne_game) t') = 1"
    unfolding same_team_insert
    by (simp add: team_store_def store_of_def fort_wayne_game_def)
  moreover have "\<exists>d' t' x. insert_team_appearance (team_store [other_league_row]) = Inr d'
      \<and> team_appearance d' = Some t' \<and> league d' = Some league_values
      \<and> x \<in> set t' \<and> ta_league_id x = TextV ''XX''
      \<and> TextV ''XX'' \<notin> set (map l_league_id league_values)"
  proof -
    let ?x = "\<lparr>ta_team_id = TextV ''FW1'', ta_game_id = TextV ''18710504FW10'', ta_home = IntV 1,
         ta_league_id = TextV ''XX'', ta_score = IntV 2, ta_stats = []\<rparr>"
    obtain d' y where run: "insert_team_appearance (team_store [other_league_row]) = Inr d'"
      and rows: "team_appearance d' = Some [y, ?x]"
      and leagues: "league d' = Some league_values"
      unfolding other_league_insert by (simp add: team_store_def store_of_def)
    have "?x \<in> set [y, ?x]" by simp
    moreover have "ta_league_id ?x = TextV ''XX''" by simp
    moreover have "TextV ''XX'' \<notin> set (map l_league_id league_values)"
      by (simp add: league_values_def)
    ultimately show ?thesis using run rows leagues by blast
  qed
  ultimately show ?thesis by blast
qed

theorem team_appearance_two_rows_witness:
  "\<exists>d' t' x y. insert_team_appearance (team_store [other_league_row]) = Inr d'
      \<and> team_appearance d' = Some t'
      \<and> (filter (\<lambda>z. ta_game_id z = TextV ''18710504FW10'') t' = [x, y]
          \<or> filter (\<lambda>z. ta_game_id z = TextV ''18710504FW10'') t' = [y, x])
      \<and> ta_home x = IntV 1 \<and> ta_team_id x = TextV ''FW1''
      \<and> ta_home y = IntV 0 \<and> ta_team_id y = TextV ''CL1''"
proof -
  let ?d = "team_store [other_league_row]"
  let ?lg = "\<lparr>has_game_id = True, log_rows = [other_league_row]\<rparr>"
  obtain d' where insert: "insert_team_appearance ?d = Inr d'"
    using other_league_insert by blast
  have table: "team_appearance ?d = Some []"
    by (simp add: team_store_def)
  have log: "game_log ?d = Some ?lg"
    by (simp add: team_store_def store_of_def)
  have row: "other_league_row \<in> set (log_rows ?lg)" by simp
  have fresh: "\<forall>x \<in> set []. ta_game_id x \<noteq> text_affinity (game_id other_league_row)" by simp
  have once: "\<forall>r' \<in> set (log_rows ?lg).
      text_affinity (game_id r') = text_affinity (game_id other_league_row) \<longrightarrow> r' = other_league_row"
    by simp
  have teams: "text_affinity (h_name other_league_row) \<noteq> text_affinity (v_name other_league_row)"
    by (simp add: other_league_row_def fort_wayne_row_def blank_row_def)
  from team_appearance_two_rows [OF insert table log row fresh once teams]
  obtain t' x y where "team_appearance d' = Some t'"
     "filter (\<lambda>z. ta_game_id z = text_affinity (game_id other_league_row)) t' = [x, y]
        \<or> filter (\<lambda>z. ta_game_id z = text_affinity (game_id other_league_row)) t' = [y, x]"
     "ta_home x = IntV 1" "ta_team_id x = text_affinity (h_name other_league_row)"
     "ta_home y = IntV 0" "ta_team_id y = text_affinity (v_name other_league_row)"
    by blast
  then have "team_appearance d' = Some t'
      \<and> (filter (\<lambda>z. ta_game_id z = TextV ''18710504FW10'') t' = [x, y]
          \<or> filter (\<lambda>z. ta_game_id z = TextV ''18710504FW10'') t' = [y, x])
      \<and> ta_home x = IntV 1 \<and> ta_team_id x = TextV ''FW1''
      \<and> ta_home y = IntV 0 \<and> ta_team_id y = TextV ''CL1''"
    by (simp add: other_league_row_def fort_wayne_row_def blank_row_def)
  with insert show ?thesis by blast
qed

subsection \<open>Running the script again\<close>

text \<open>
  Claim C3, amended. On a store in which a row of \<open>person_appearance\<close> refers to a row of
  \<open>appearance_type\<close>, a run of the script ends with a foreign-key error, at
  \<open>DROP TABLE IF EXISTS appearance_type\<close>. Run again on a store that has the table, each
  \<open>CREATE TABLE IF NOT EXISTS\<close> of \<open>person\<close>, \<open>park\<close>, \<open>league\<close>, \<open>team\<close>, \<open>game\<close> and
  \<open>team_appearance\<close> succeeds and changes nothing; and run again after it has succeeded,
  each \<open>INSERT OR IGNORE\<close> into these tables succeeds and changes nothing, provided the
  key columns of its source rows are not NULL. \<open>person_appearance\<close> is dropped, with its
  rows, each time.
\<close>

theorem rerun_of_migration:
  "(\<forall>ty pa x. appearance_type d = Some ty \<and> person_appearance d = Some pa \<and> x \<in> set pa
        \<and> pa_appearance_type_id x \<noteq> Null
        \<and> pa_appearance_type_id x \<in> set (map at_appearance_type_id ty)
      \<longrightarrow> migrate inp d = Inl ForeignKeyFailed)
   \<and> (person d \<noteq> None \<longrightarrow> create_person d = Inr d)
   \<and> (park d \<noteq> None \<longrightarrow> create_park d = Inr d)
   \<and> (league d \<noteq> None \<longrightarrow> create_league d = Inr d)
   \<and> (team d \<noteq> None \<longrightarrow> create_team d = Inr d)
   \<and> (game d \<noteq> None \<longrightarrow> create_game d = Inr d)
   \<and> (team_appearance d \<noteq> None \<longrightarrow> create_team_appearance d = Inr d)
   \<and> (\<forall>d' cs. insert_person d = Inr d' \<and> person_codes d = Some cs
        \<and> (\<forall>c \<in> set cs. pc_id c \<noteq> Null) \<longrightarrow> insert_person d' = Inr d')
   \<and> (\<forall>d' cs. insert_park d = Inr d' \<and> park_codes d = Some cs
        \<and> (\<forall>c \<in> set cs. kc_park_id c \<noteq> Null) \<longrightarrow> insert_park d' = Inr d')
   \<and> (\<forall>d'. insert_league d = Inr d' \<longrightarrow> insert_league d' = Inr d')
   \<and> (\<forall>d' cs. insert_team d = Inr d' \<and> team_codes d = Some cs
        \<and> (\<forall>c \<in> set cs. tc_team_id c \<noteq> Null) \<longrightarrow> insert_team d' = Inr d')
   \<and> (\<forall>d' lg. insert_game d = Inr d' \<and> game_log d = Some lg
        \<and> (\<forall>r \<in> set (log_rows lg). game_id r \<noteq> Null) \<longrightarrow> insert_game d' = Inr d')
   \<and> (\<forall>d' lg. insert_team_appearance d = Inr d' \<and> game_log d = Some lg
        \<and> (\<forall>r \<in> set (log_rows lg). game_id r \<noteq> Null \<and> h_name r \<noteq> Null \<and> v_name r \<noteq> Null)
      \<longrightarrow> insert_team_appearance d' = Inr d')
   \<and> drop_person_appearance d = Inr (d\<lparr>person_appearance := None\<rparr>)"
proof -
  have a: "\<forall>ty pa x. appearance_type d = Some ty \<and> person_appearance d = Some pa \<and> x \<in> set pa
        \<and> pa_appearance_type_id x \<noteq> Null
        \<and> pa_appearance_type_id x \<in> set (map at_appearance_type_id ty)
      \<longrightarrow> migrate inp d = Inl ForeignKeyFailed"
    using migrate_stops_at_drop [of d _ _ _ inp] by blast
  have b: "\<forall>d' cs. insert_person d = Inr d' \<and> person_codes d = Some cs
        \<and> (\<forall>c \<in> set cs. pc_id c \<noteq> Null) \<longrightarrow> insert_person d' = Inr d'"
    using insert_person_again [of d] by blast
  have c: "\<forall>d' cs. insert_park d = Inr d' \<and> park_codes d = Some cs
        \<and> (\<forall>c \<in> set cs. kc_park_id c \<noteq> Null) \<longrightarrow> insert_park d' = Inr d'"
    using insert_park_again [of d] by blast
  have e: "\<forall>d'. insert_league d = Inr d' \<longrightarrow> insert_league d' = Inr d'"
    using insert_league_again [of d] by blast
  have f: "\<forall>d' cs. insert_team d = Inr d' \<and> team_codes d = Some cs
        \<and> (\<forall>c \<in> set cs. tc_team_id c \<noteq> Null) \<longrightarrow> insert_team d' = Inr d'"
    using insert_team_again [of d] by blast
  have g: "\<forall>d' lg. insert_game d = Inr d' \<and> game_log d = Some lg
        \<and> (\<forall>r \<in> set (log_rows lg). game_id r \<noteq> Null) \<longrightarrow> insert_game d' = Inr d'"
    using insert_game_again [of d] by blast
  have h: "\<forall>d' lg. insert_team_appearance d = Inr d' \<and> game_log d = Some lg
        \<and> (\<forall>r \<in> set (log_rows lg). game_id r \<noteq> Null \<and> h_name r \<noteq> Null \<and> v_name r \<noteq> Null)
      \<longrightarrow> insert_team_appearance d' = Inr d'"
    using insert_team_appearance_again [of d] by blast
  have i: "drop_person_appearance d = Inr (d\<lparr>person_appearance := None\<rparr>)"
    by (simp add: drop_person_appearance_def)
  from a b c e f g h i show ?thesis
    using create_existing [of d] by blast
qed

text \<open>
  Claim C3 as stated fails: the script run on the empty store with one game and its
  home manager succeeds, and run again on the store it has left, with the same inputs,
  it ends with a foreign-key error.
\<close>

theorem rerun_counterexample:
  "migrate first_inputs empty_db = Inr first_store
   \<and> migrate first_inputs first_store = Inl ForeignKeyFailed"
proof -
  let ?x = "\<lparr>pa_appearance_id = 1, pa_person_id = TextV ''m1'', pa_team_id = TextV ''FW1'',
         pa_game_id = TextV ''18710504FW10'', pa_appearance_type_id = TextV ''MM''\<rparr>"
  have "migrate first_inputs first_store = Inl ForeignKeyFailed"
    by (rule migrate_stops_at_drop [of first_store "[named_type ''MM'']" "[?x]" ?x])
       (simp_all add: first_store_def named_type_def)
  with first_run show ?thesis by simp
qed

theorem rerun_of_migration_witness:
  "migrate first_inputs first_store = Inl ForeignKeyFailed
   \<and> create_person first_store = Inr first_store
   \<and> insert_league first_store = Inr first_store"
proof -
  let ?x = "\<lparr>pa_appearance_id = 1, pa_person_id = TextV ''m1'', pa_team_id = TextV ''FW1'',
         pa_game_id = TextV ''18710504FW10'', pa_appearance_type_id = TextV ''MM''\<rparr>"
  note inst = rerun_of_migration [of first_store first_inputs]
  have ty: "appearance_type first_store = Some [named_type ''MM'']"
    and pa: "person_appearance first_store = Some [?x]"
    and x: "?x \<in> set [?x]" "pa_appearance_type_id ?x \<noteq> Null"
       "pa_appearance_type_id ?x \<in> set (map at_appearance_type_id [named_type ''MM''])"
    and person: "person first_store \<noteq> None"
    by (simp_all add: first_store_def named_type_def)
  have league: "insert_league first_store = Inr first_store"
    by (simp add: insert_league_def first_store_def league_key_def pk_conflict_def
          league_values_def)
  have stops: "\<forall>ty pa x. appearance_type first_store = Some ty
        \<and> person_appearance first_store = Some pa \<and> x \<in> set pa
        \<and> pa_appearance_type_id x \<noteq> Null
        \<and> pa_appearance_type_id x \<in> set (map at_appearance_type_id ty)
      \<longrightarrow> migrate first_inputs first_store = Inl ForeignKeyFailed"
    by (rule inst [THEN conjunct1])
  have create: "person first_store \<noteq> None \<longrightarrow> create_person first_store = Inr first_store"
    by (rule inst [THEN conjunct2, THEN conjunct1])
  have again: "\<forall>d'. insert_league first_store = Inr d' \<longrightarrow> insert_league d' = Inr d'"
    by (rule inst [THEN conjunct2, THEN conjunct2, THEN conjunct2, THEN conjunct2,
          THEN conjunct2, THEN conjunct2, THEN conjunct2, THEN conjunct2, THEN conjunct2,
          THEN conjunct1])
  from stops have "appearance_type first_store = Some [named_type ''MM'']
        \<and> person_appearance first_store = Some [?x] \<and> ?x \<in> set [?x]
        \<and> pa_appearance_type_id ?x \<noteq> Null
        \<and> pa_appearance_type_id ?x \<in> set (map at_appearance_type_id [named_type ''MM''])
      \<longrightarrow> migrate first_inputs first_store = Inl ForeignKeyFailed"
    by (elim allE)
  with ty pa x have "migrate first_inputs first_store = Inl ForeignKeyFailed"
    by (simp add: named_type_def)
  moreover from create person have "create_person first_store = Inr first_store" by simp
  moreover from again league have "insert_league first_store = Inr first_store" by simp
  ultimately show ?thesis by blast
qed

end
